theory Spec2Isabelle
  imports Main "HOL-Library.Word"
begin

unbundle bit_operations_syntax

section \<open>The binary codec of \<^verbatim>\<open>opcua/ua/ua_binary.py\<close>\<close>

text \<open>
  A shallow embedding of the OPC UA binary codec. Python objects are values of the type
  \<open>pyval\<close>; a function that can raise returns \<open>error + 'a\<close> with \<open>Inl\<close> for the
  exception; a decoder takes the buffer and returns the decoded value together with the
  buffer as it leaves it.
\<close>

subsection \<open>Bytes, exceptions and the buffer\<close>

type_synonym byte = "8 word"
type_synonym bytes = "byte list"

datatype error =
    StructError | NotEnoughData | UaError | TypeError | ValueError | AttributeError
  | IndexError | KeyError | UnicodeError | OverflowError | RecursionError

definition bind :: "error + 'a \<Rightarrow> ('a \<Rightarrow> error + 'b) \<Rightarrow> error + 'b" where
  "bind m f = (case m of Inl e \<Rightarrow> Inl e | Inr x \<Rightarrow> f x)"

text \<open>
  Modelled from the spec: the class \<^verbatim>\<open>Buffer\<close> of \<^verbatim>\<open>opcua.common.utils\<close> is not part of
  the sources. The spec gives it as a byte sequence with a read cursor and the operations
  \<^verbatim>\<open>read(n)\<close> (advances the cursor, fails on underflow), \<^verbatim>\<open>skip(n)\<close>, \<^verbatim>\<open>copy(n)\<close> (a
  sub-buffer owning the next \<open>n\<close> bytes, with a cursor of its own) and the number of
  remaining bytes. A buffer is represented by the bytes its cursor has not passed yet.
  The spec does not say what a negative size does; the model refuses it.
\<close>

datatype Buffer = Buffer (remaining: bytes)

definition len_Buffer :: "Buffer \<Rightarrow> int" where
  "len_Buffer data = int (length (remaining data))"

definition read :: "Buffer \<Rightarrow> int \<Rightarrow> error + (bytes \<times> Buffer)" where
  "read data n =
     (if n < 0 then Inl ValueError
      else if n > len_Buffer data then Inl NotEnoughData
      else Inr (take (nat n) (remaining data), Buffer (drop (nat n) (remaining data))))"

definition skip :: "Buffer \<Rightarrow> int \<Rightarrow> error + Buffer" where
  "skip data n =
     (if n < 0 then Inl ValueError
      else if n > len_Buffer data then Inl NotEnoughData
      else Inr (Buffer (drop (nat n) (remaining data))))"

definition copy :: "Buffer \<Rightarrow> int \<Rightarrow> Buffer" where
  "copy data n = Buffer (take (nat n) (remaining data))"

subsection \<open>Bit helpers\<close>

definition test_bit :: "int \<Rightarrow> nat \<Rightarrow> int" where
  "test_bit data offset = (let mask = push_bit offset 1 in data AND mask)"

definition set_bit :: "int \<Rightarrow> nat \<Rightarrow> int" where
  "set_bit data offset = (let mask = push_bit offset 1 in data OR mask)"

definition unset_bit :: "int \<Rightarrow> nat \<Rightarrow> int" where
  "unset_bit data offset = (let mask = push_bit offset 1 in data AND NOT mask)"

subsection \<open>Python values\<close>

text \<open>
  \<open>VariantType\<close> and \<open>NodeIdType\<close> are the two enumerations of \<^verbatim>\<open>opcua.ua\<close> the codec
  dispatches on (their members and values are those of OPC UA Part 6, as the spec lists
  them). \<open>VariantTypeCustom\<close> is the tag above 25 that \<^verbatim>\<open>datatype_to_varianttype\<close>
  returns for user-defined content.
\<close>

datatype VariantType =
    Null | Boolean | SByte | Byte | Int16 | UInt16 | Int32 | UInt32 | Int64 | UInt64
  | Float | Double | String | DateTime | Guid | ByteString | XmlElement | NodeId
  | ExpandedNodeId | StatusCode | QualifiedName | LocalizedText | ExtensionObject
  | DataValue | Variant | DiagnosticInfo
  | VariantTypeCustom nat

datatype NodeIdType =
  TwoByte | FourByte | Numeric | String_nid | Guid_nid | ByteString_nid

text \<open>
  A Python \<^verbatim>\<open>float\<close> is its IEEE-754 binary64 pattern, a \<^verbatim>\<open>str\<close> the list of its code
  points, a \<^verbatim>\<open>uuid.UUID\<close> its 128-bit integer, a \<^verbatim>\<open>datetime\<close> an opaque number. An
  instance of a class with \<^verbatim>\<open>ua_types\<close> carries its class name, the class attributes
  \<^verbatim>\<open>ua_types\<close> and \<^verbatim>\<open>ua_switches\<close> (\<open>None\<close> when the class has none) and its instance
  attributes in the order they were set.
\<close>

datatype pyval =
    PNone
  | PBool bool
  | PInt int
  | PFloat "64 word"
  | PStr "nat list"
  | PBytes bytes
  | PList "pyval list"
  | PTuple "pyval list"
  | PDateTime int
  | PUUID "128 word"
  | PEnum string bool int
  | PNodeId pyval pyval NodeIdType pyval pyval
  | PVariant pyval VariantType pyval bool
  | PObject string "(string \<times> string) list" "(string \<times> string \<times> nat) list option"
      "(string \<times> pyval) list"

text \<open>
  \<open>PEnum c i v\<close> is the member with value \<open>v\<close> of the enumeration class \<open>c\<close>; \<open>i\<close> tells
  an \<^verbatim>\<open>IntEnum\<close>. \<open>PNodeId Identifier NamespaceIndex NodeIdType NamespaceUri ServerIndex\<close>
  is a \<^verbatim>\<open>ua.NodeId\<close>, \<open>PVariant Value VariantType Dimensions is_array\<close> a \<^verbatim>\<open>ua.Variant\<close>.
\<close>

fun name_of :: "VariantType \<Rightarrow> string" where
  "name_of Null = ''Null''"
| "name_of Boolean = ''Boolean''"
| "name_of SByte = ''SByte''"
| "name_of Byte = ''Byte''"
| "name_of Int16 = ''Int16''"
| "name_of UInt16 = ''UInt16''"
| "name_of Int32 = ''Int32''"
| "name_of UInt32 = ''UInt32''"
| "name_of Int64 = ''Int64''"
| "name_of UInt64 = ''UInt64''"
| "name_of Float = ''Float''"
| "name_of Double = ''Double''"
| "name_of String = ''String''"
| "name_of DateTime = ''DateTime''"
| "name_of Guid = ''Guid''"
| "name_of ByteString = ''ByteString''"
| "name_of XmlElement = ''XmlElement''"
| "name_of NodeId = ''NodeId''"
| "name_of ExpandedNodeId = ''ExpandedNodeId''"
| "name_of StatusCode = ''StatusCode''"
| "name_of QualifiedName = ''QualifiedName''"
| "name_of LocalizedText = ''LocalizedText''"
| "name_of ExtensionObject = ''ExtensionObject''"
| "name_of DataValue = ''DataValue''"
| "name_of Variant = ''Variant''"
| "name_of DiagnosticInfo = ''DiagnosticInfo''"
| "name_of (VariantTypeCustom n) = ''VariantTypeCustom''"

definition builtin_types :: "VariantType list" where
  "builtin_types =
     [Null, Boolean, SByte, Byte, Int16, UInt16, Int32, UInt32, Int64, UInt64, Float,
      Double, String, DateTime, Guid, ByteString, XmlElement, NodeId, ExpandedNodeId,
      StatusCode, QualifiedName, LocalizedText, ExtensionObject, DataValue, Variant,
      DiagnosticInfo]"

fun index_of :: "'a \<Rightarrow> 'a list \<Rightarrow> nat" where
  "index_of x [] = 0"
| "index_of x (y # ys) = (if x = y then 0 else Suc (index_of x ys))"

fun value_of :: "VariantType \<Rightarrow> nat" where
  "value_of (VariantTypeCustom n) = n"
| "value_of vt = index_of vt builtin_types"

text \<open>\<^verbatim>\<open>getattr(ua.VariantType, uatype)\<close>: the member of that name, if there is one.\<close>

definition VariantType_named :: "string \<Rightarrow> VariantType option" where
  "VariantType_named s = find (\<lambda>vt. name_of vt = s) builtin_types"

text \<open>
  Modelled from the spec: \<^verbatim>\<open>ua.datatype_to_varianttype\<close> is not part of the sources. The
  tags 0..25 are the builtin types; a tag above 25 marks user-defined content.
\<close>

definition datatype_to_varianttype :: "nat \<Rightarrow> VariantType" where
  "datatype_to_varianttype int_type =
     (if int_type \<le> 25 then builtin_types ! int_type else VariantTypeCustom int_type)"

fun value_of_NodeIdType :: "NodeIdType \<Rightarrow> nat" where
  "value_of_NodeIdType TwoByte = 0"
| "value_of_NodeIdType FourByte = 1"
| "value_of_NodeIdType Numeric = 2"
| "value_of_NodeIdType String_nid = 3"
| "value_of_NodeIdType Guid_nid = 4"
| "value_of_NodeIdType ByteString_nid = 5"

text \<open>\<^verbatim>\<open>ua.NodeIdType(n)\<close>: the member with that value; \<^verbatim>\<open>ValueError\<close> when there is none.\<close>

definition NodeIdType_of :: "nat \<Rightarrow> error + NodeIdType" where
  "NodeIdType_of n =
     (case find (\<lambda>t. value_of_NodeIdType t = n)
             [TwoByte, FourByte, Numeric, String_nid, Guid_nid, ByteString_nid] of
        None \<Rightarrow> Inl ValueError
      | Some t \<Rightarrow> Inr t)"

text \<open>Python's truth value of an object (\<^verbatim>\<open>if Body:\<close>, the format \<^verbatim>\<open>?\<close>).\<close>

fun truthy :: "pyval \<Rightarrow> bool" where
  "truthy PNone = False"
| "truthy (PBool b) = b"
| "truthy (PInt i) = (i \<noteq> 0)"
| "truthy (PFloat w) = (w \<noteq> 0 \<and> w \<noteq> push_bit 63 1)"
| "truthy (PStr s) = (s \<noteq> [])"
| "truthy (PBytes b) = (b \<noteq> [])"
| "truthy (PList xs) = (xs \<noteq> [])"
| "truthy (PTuple xs) = (xs \<noteq> [])"
| "truthy (PEnum c i v) = (i \<longrightarrow> v \<noteq> 0)"
| "truthy v = True"

text \<open>The integer an object stands for where Python wants one (\<^verbatim>\<open>__index__\<close>).\<close>

fun as_int :: "pyval \<Rightarrow> int option" where
  "as_int (PInt i) = Some i"
| "as_int (PBool b) = Some (if b then 1 else 0)"
| "as_int (PEnum c i v) = (if i then Some v else None)"
| "as_int v = None"

subsection \<open>What the codec takes from outside\<close>

text \<open>
  A class of \<^verbatim>\<open>opcua.ua\<close>: an enumeration with the values of its members, or a structure
  with its \<^verbatim>\<open>ua_types\<close>, its \<^verbatim>\<open>ua_switches\<close> and the attributes its constructor sets.
\<close>

datatype klass =
    EnumClass string bool "int list"
  | StructClass string "(string \<times> string) list" "(string \<times> string \<times> nat) list option"
      "(string \<times> pyval) list"

text \<open>
  The module \<^verbatim>\<open>opcua.ua\<close> is not part of the sources, and the conversions between
  IEEE-754 formats belong to Python's \<^verbatim>\<open>struct\<close>. The codec takes them as a parameter:
  the two extension-object registries, the classes of the module by name, the two
  conversions between a \<^verbatim>\<open>datetime\<close> and the count of 100 ns ticks since 1601, and the
  conversions of Python's \<^verbatim>\<open>struct\<close> module between an integer, binary64 and binary32.
\<close>

record ua =
  extension_object_classes :: "pyval \<Rightarrow> klass option"
  extension_object_ids :: "string \<Rightarrow> pyval option"
  classes :: "string \<Rightarrow> klass option"
  datetime_to_win_epoch :: "pyval \<Rightarrow> error + int"
  win_epoch_to_datetime :: "int \<Rightarrow> error + pyval"
  float_of_int :: "int \<Rightarrow> error + 64 word"
  single_of_float :: "64 word \<Rightarrow> error + 32 word"
  float_of_single :: "32 word \<Rightarrow> 64 word"

subsection \<open>Python's \<^verbatim>\<open>struct\<close> module, little-endian\<close>

datatype fmtchar = Fb | Fh | Fi | Fq | FB | FH | FI | FQ | Fbool | Fd | Ff

fun calcsize :: "fmtchar \<Rightarrow> nat" where
  "calcsize Fb = 1" | "calcsize FB = 1" | "calcsize Fbool = 1"
| "calcsize Fh = 2" | "calcsize FH = 2"
| "calcsize Fi = 4" | "calcsize FI = 4" | "calcsize Ff = 4"
| "calcsize Fq = 8" | "calcsize FQ = 8" | "calcsize Fd = 8"

fun signed :: "fmtchar \<Rightarrow> bool" where
  "signed Fb = True" | "signed Fh = True" | "signed Fi = True" | "signed Fq = True"
| "signed c = False"

fun le_bytes :: "nat \<Rightarrow> nat \<Rightarrow> bytes" where
  "le_bytes 0 v = []"
| "le_bytes (Suc n) v = of_nat (v mod 256) # le_bytes n (v div 256)"

fun le_value :: "bytes \<Rightarrow> nat" where
  "le_value [] = 0"
| "le_value (b # bs) = unat b + 256 * le_value bs"

definition pack_int :: "fmtchar \<Rightarrow> int \<Rightarrow> error + bytes" where
  "pack_int c x =
     (let n = calcsize c in
      if signed c then
        (if - (2 ^ (8 * n - 1)) \<le> x \<and> x < 2 ^ (8 * n - 1)
         then Inr (le_bytes n (nat (x mod 2 ^ (8 * n)))) else Inl StructError)
      else
        (if 0 \<le> x \<and> x < 2 ^ (8 * n) then Inr (le_bytes n (nat x)) else Inl StructError))"

definition unpack_int :: "fmtchar \<Rightarrow> bytes \<Rightarrow> int" where
  "unpack_int c b =
     (let n = calcsize c; u = int (le_value b) in
      if signed c \<and> 2 ^ (8 * n - 1) \<le> u then u - 2 ^ (8 * n) else u)"

text \<open>\<^verbatim>\<open>struct.pack("<c", v)\<close> and \<^verbatim>\<open>struct.unpack("<c", b)[0]\<close> for one format character.\<close>

fun struct_pack1 :: "ua \<Rightarrow> fmtchar \<Rightarrow> pyval \<Rightarrow> error + bytes" where
  "struct_pack1 ua Fbool v = Inr [if truthy v then 1 else 0]"
| "struct_pack1 ua Fd v =
     (case v of
        PFloat w \<Rightarrow> Inr (le_bytes 8 (unat w))
      | _ \<Rightarrow> (case as_int v of
                None \<Rightarrow> Inl StructError
              | Some i \<Rightarrow> bind (float_of_int ua i) (\<lambda>w. Inr (le_bytes 8 (unat w)))))"
| "struct_pack1 ua Ff v =
     bind (case v of
             PFloat w \<Rightarrow> Inr w
           | _ \<Rightarrow> (case as_int v of None \<Rightarrow> Inl StructError | Some i \<Rightarrow> float_of_int ua i))
       (\<lambda>w. bind (single_of_float ua w) (\<lambda>s. Inr (le_bytes 4 (unat s))))"
| "struct_pack1 ua c v =
     (case as_int v of None \<Rightarrow> Inl StructError | Some i \<Rightarrow> pack_int c i)"

fun struct_unpack1 :: "ua \<Rightarrow> fmtchar \<Rightarrow> bytes \<Rightarrow> pyval" where
  "struct_unpack1 ua Fbool b = PBool (le_value b \<noteq> 0)"
| "struct_unpack1 ua Fd b = PFloat (of_nat (le_value b))"
| "struct_unpack1 ua Ff b = PFloat (float_of_single ua (of_nat (le_value b)))"
| "struct_unpack1 ua c b = PInt (unpack_int c b)"

text \<open>Several fields at once, as in \<^verbatim>\<open>struct.pack("<BHI", a, b, c)\<close>.\<close>

fun struct_pack :: "ua \<Rightarrow> fmtchar list \<Rightarrow> pyval list \<Rightarrow> error + bytes" where
  "struct_pack ua [] [] = Inr []"
| "struct_pack ua (c # cs) (v # vs) =
     bind (struct_pack1 ua c v) (\<lambda>b. bind (struct_pack ua cs vs) (\<lambda>bs. Inr (b @ bs)))"
| "struct_pack ua cs vs = Inl StructError"

fun struct_unpack :: "ua \<Rightarrow> fmtchar list \<Rightarrow> bytes \<Rightarrow> pyval list" where
  "struct_unpack ua [] b = []"
| "struct_unpack ua (c # cs) b =
     struct_unpack1 ua c (take (calcsize c) b) # struct_unpack ua cs (drop (calcsize c) b)"

subsection \<open>UTF-8\<close>

text \<open>
  \<^verbatim>\<open>str.encode('utf-8')\<close> and \<^verbatim>\<open>bytes.decode('utf-8')\<close> on lists of code points. Encoding
  refuses a surrogate; decoding refuses what RFC 3629 does: a stray or missing
  continuation byte, an overlong form, a surrogate, a code point above \<open>0x10FFFF\<close>.
\<close>

fun utf8_encode :: "nat list \<Rightarrow> error + bytes" where
  "utf8_encode [] = Inr []"
| "utf8_encode (c # cs) =
     bind (if c < 0x80 then Inr [of_nat c]
           else if c < 0x800 then Inr [of_nat (0xC0 + c div 64), of_nat (0x80 + c mod 64)]
           else if 0xD800 \<le> c \<and> c < 0xE000 then Inl UnicodeError
           else if c < 0x10000 then
             Inr [of_nat (0xE0 + c div 4096), of_nat (0x80 + c div 64 mod 64),
                  of_nat (0x80 + c mod 64)]
           else if c < 0x110000 then
             Inr [of_nat (0xF0 + c div 262144), of_nat (0x80 + c div 4096 mod 64),
                  of_nat (0x80 + c div 64 mod 64), of_nat (0x80 + c mod 64)]
           else Inl UnicodeError)
       (\<lambda>b. bind (utf8_encode cs) (\<lambda>bs. Inr (b @ bs)))"

definition cont :: "byte \<Rightarrow> bool" where
  "cont b = (0x80 \<le> unat b \<and> unat b < 0xC0)"

fun utf8_decode :: "bytes \<Rightarrow> error + nat list" where
  "utf8_decode [] = Inr []"
| "utf8_decode (b # bs) =
     (let x = unat b in
      if x < 0x80 then bind (utf8_decode bs) (\<lambda>cs. Inr (x # cs))
      else if 0xC2 \<le> x \<and> x < 0xE0 then
        (case bs of
           b1 # r \<Rightarrow>
             if cont b1
             then bind (utf8_decode r) (\<lambda>cs. Inr (((x - 0xC0) * 64 + (unat b1 - 0x80)) # cs))
             else Inl UnicodeError
         | _ \<Rightarrow> Inl UnicodeError)
      else if 0xE0 \<le> x \<and> x < 0xF0 then
        (case bs of
           b1 # b2 # r \<Rightarrow>
             (let c = (x - 0xE0) * 4096 + (unat b1 - 0x80) * 64 + (unat b2 - 0x80) in
              if cont b1 \<and> cont b2 \<and> 0x800 \<le> c \<and> \<not> (0xD800 \<le> c \<and> c < 0xE000)
              then bind (utf8_decode r) (\<lambda>cs. Inr (c # cs))
              else Inl UnicodeError)
         | _ \<Rightarrow> Inl UnicodeError)
      else if 0xF0 \<le> x \<and> x < 0xF5 then
        (case bs of
           b1 # b2 # b3 # r \<Rightarrow>
             (let c = (x - 0xF0) * 262144 + (unat b1 - 0x80) * 4096 + (unat b2 - 0x80) * 64
                      + (unat b3 - 0x80) in
              if cont b1 \<and> cont b2 \<and> cont b3 \<and> 0x10000 \<le> c \<and> c < 0x110000
              then bind (utf8_decode r) (\<lambda>cs. Inr (c # cs))
              else Inl UnicodeError)
         | _ \<Rightarrow> Inl UnicodeError)
      else Inl UnicodeError)"

subsection \<open>The primitives\<close>

text \<open>
  The classes \<^verbatim>\<open>_Primitive1\<close> (one \<^verbatim>\<open>struct\<close> format), \<^verbatim>\<open>_Null\<close>, \<^verbatim>\<open>_String\<close>, \<^verbatim>\<open>_Bytes\<close>,
  \<^verbatim>\<open>_DateTime\<close> and \<^verbatim>\<open>_Guid\<close>, and the table \<^verbatim>\<open>Primitives\<close> of their instances by
  attribute name. The module runs under Python 3 (\<^verbatim>\<open>unicode = str\<close>).
\<close>

datatype primitive =
  Primitive1 fmtchar | Null_prim | String_prim | Bytes_prim | DateTime_prim | Guid_prim

definition Primitives :: "string \<Rightarrow> primitive option" where
  "Primitives = map_of
     [(''SByte'', Primitive1 Fb), (''Int16'', Primitive1 Fh), (''Int32'', Primitive1 Fi),
      (''Int64'', Primitive1 Fq), (''Byte'', Primitive1 FB), (''Char'', Primitive1 FB),
      (''UInt16'', Primitive1 FH), (''UInt32'', Primitive1 FI), (''UInt64'', Primitive1 FQ),
      (''Boolean'', Primitive1 Fbool), (''Double'', Primitive1 Fd), (''Float'', Primitive1 Ff),
      (''Null'', Null_prim), (''String'', String_prim), (''Bytes'', Bytes_prim),
      (''ByteString'', Bytes_prim), (''CharArray'', String_prim),
      (''DateTime'', DateTime_prim), (''Guid'', Guid_prim)]"

text \<open>
  \<^verbatim>\<open>struct.unpack(self.format, data.read(self.size))[0]\<close>; \<open>unpack_integer\<close> is the same
  call for an integer format, with the integer it returns.
\<close>

definition Primitive1_unpack :: "ua \<Rightarrow> fmtchar \<Rightarrow> Buffer \<Rightarrow> error + (pyval \<times> Buffer)" where
  "Primitive1_unpack ua c data =
     bind (read data (int (calcsize c))) (\<lambda>(b, data). Inr (struct_unpack1 ua c b, data))"

definition unpack_integer :: "fmtchar \<Rightarrow> Buffer \<Rightarrow> error + (int \<times> Buffer)" where
  "unpack_integer c data =
     bind (read data (int (calcsize c))) (\<lambda>(b, data). Inr (unpack_int c b, data))"

definition String_pack :: "ua \<Rightarrow> pyval \<Rightarrow> error + bytes" where
  "String_pack ua string =
     (case string of
        PNone \<Rightarrow> struct_pack1 ua Fi (PInt (- 1))
      | PStr s \<Rightarrow>
          bind (utf8_encode s) (\<lambda>string.
          bind (struct_pack1 ua Fi (PInt (int (length string)))) (\<lambda>l. Inr (l @ string)))
      | PBytes string \<Rightarrow>
          bind (struct_pack1 ua Fi (PInt (int (length string)))) (\<lambda>l. Inr (l @ string))
      | _ \<Rightarrow> Inl TypeError)"

definition Bytes_unpack :: "ua \<Rightarrow> Buffer \<Rightarrow> error + (pyval \<times> Buffer)" where
  "Bytes_unpack ua data =
     bind (unpack_integer Fi data) (\<lambda>(length, data).
       if length = - 1 then Inr (PNone, data)
       else bind (read data length) (\<lambda>(b, data). Inr (PBytes b, data)))"

definition String_unpack :: "ua \<Rightarrow> Buffer \<Rightarrow> error + (pyval \<times> Buffer)" where
  "String_unpack ua data =
     bind (Bytes_unpack ua data) (\<lambda>(b, data).
       case b of
         PBytes b \<Rightarrow> bind (utf8_decode b) (\<lambda>s. Inr (PStr s, data))
       | _ \<Rightarrow> Inr (b, data))"

definition Guid_pack :: "ua \<Rightarrow> pyval \<Rightarrow> error + bytes" where
  "Guid_pack ua guid =
     (case guid of
        PUUID u \<Rightarrow>
          (let n = unat u;
               time_low = n div 2 ^ 96;
               time_mid = n div 2 ^ 80 mod 2 ^ 16;
               time_hi_version = n div 2 ^ 64 mod 2 ^ 16;
               clock_seq_hi_variant = n div 2 ^ 56 mod 2 ^ 8;
               clock_seq_low = n div 2 ^ 48 mod 2 ^ 8;
               node = n mod 2 ^ 48
           in
           bind (struct_pack1 ua FI (PInt (int time_low))) (\<lambda>f1.
           bind (struct_pack1 ua FH (PInt (int time_mid))) (\<lambda>f2.
           bind (struct_pack1 ua FH (PInt (int time_hi_version))) (\<lambda>f3.
           bind (struct_pack1 ua FB (PInt (int clock_seq_hi_variant))) (\<lambda>f4a.
           bind (struct_pack1 ua FB (PInt (int clock_seq_low))) (\<lambda>f4b.
           bind (struct_pack1 ua FQ (PInt (int node))) (\<lambda>q.
             let f4c = take 6 (drop 2 (rev q)); f4 = f4a @ f4b @ f4c
             in Inr (f1 @ f2 @ f3 @ f4))))))))
      | _ \<Rightarrow> Inl AttributeError)"

definition Guid_unpack :: "ua \<Rightarrow> Buffer \<Rightarrow> error + (pyval \<times> Buffer)" where
  "Guid_unpack ua data =
     bind (read data 4) (\<lambda>(b1, data).
     bind (read data 2) (\<lambda>(b2, data).
     bind (read data 2) (\<lambda>(b3, data).
     bind (read data 8) (\<lambda>(f4, data).
       let b = rev b1 @ rev b2 @ rev b3 @ f4
       in Inr (PUUID (of_nat (le_value (rev b))), data)))))"

definition DateTime_pack :: "ua \<Rightarrow> pyval \<Rightarrow> error + bytes" where
  "DateTime_pack ua dt =
     bind (datetime_to_win_epoch ua dt) (\<lambda>epch. struct_pack1 ua Fq (PInt epch))"

definition DateTime_unpack :: "ua \<Rightarrow> Buffer \<Rightarrow> error + (pyval \<times> Buffer)" where
  "DateTime_unpack ua data =
     bind (unpack_integer Fq data) (\<lambda>(epch, data).
     bind (win_epoch_to_datetime ua epch) (\<lambda>dt. Inr (dt, data)))"

fun pack :: "ua \<Rightarrow> primitive \<Rightarrow> pyval \<Rightarrow> error + bytes" where
  "pack ua (Primitive1 c) data = struct_pack1 ua c data"
| "pack ua Null_prim data = Inr []"
| "pack ua String_prim data = String_pack ua data"
| "pack ua Bytes_prim data = String_pack ua data"
| "pack ua DateTime_prim data = DateTime_pack ua data"
| "pack ua Guid_prim data = Guid_pack ua data"

fun unpack :: "ua \<Rightarrow> primitive \<Rightarrow> Buffer \<Rightarrow> error + (pyval \<times> Buffer)" where
  "unpack ua (Primitive1 c) data = Primitive1_unpack ua c data"
| "unpack ua Null_prim data = Inr (PNone, data)"
| "unpack ua String_prim data = String_unpack ua data"
| "unpack ua Bytes_prim data = Bytes_unpack ua data"
| "unpack ua DateTime_prim data = DateTime_unpack ua data"
| "unpack ua Guid_prim data = Guid_unpack ua data"

text \<open>
  What \<^verbatim>\<open>len(x)\<close> and \<^verbatim>\<open>for val in x\<close> see: the items of a list or a tuple, the bytes of
  a \<^verbatim>\<open>bytes\<close> as integers, the characters of a \<^verbatim>\<open>str\<close>; \<^verbatim>\<open>TypeError\<close> for the rest.
\<close>

fun items :: "pyval \<Rightarrow> error + pyval list" where
  "items (PList xs) = Inr xs"
| "items (PTuple xs) = Inr xs"
| "items (PBytes b) = Inr (map (\<lambda>x. PInt (uint x)) b)"
| "items (PStr s) = Inr (map (\<lambda>c. PStr [c]) s)"
| "items v = Inl TypeError"

text \<open>The comprehension \<^verbatim>\<open>[self.pack(val) for val in array]\<close>, joined.\<close>

fun pack_each :: "ua \<Rightarrow> primitive \<Rightarrow> pyval list \<Rightarrow> error + bytes" where
  "pack_each ua p [] = Inr []"
| "pack_each ua p (val # array) =
     bind (pack ua p val) (\<lambda>b. bind (pack_each ua p array) (\<lambda>bs. Inr (b @ bs)))"

definition pack_array :: "ua \<Rightarrow> primitive \<Rightarrow> pyval \<Rightarrow> error + bytes" where
  "pack_array ua p array =
     (if array = PNone then Inr [0xff, 0xff, 0xff, 0xff]
      else bind (items array) (\<lambda>xs.
           let length = int (length xs) in
           bind (pack_each ua p xs) (\<lambda>b.
           bind (struct_pack1 ua Fi (PInt length)) (\<lambda>l. Inr (l @ b)))))"

text \<open>The comprehension \<^verbatim>\<open>[self.unpack(data) for _ in range(length)]\<close>.\<close>

fun unpack_each :: "ua \<Rightarrow> primitive \<Rightarrow> nat \<Rightarrow> Buffer \<Rightarrow> error + (pyval list \<times> Buffer)" where
  "unpack_each ua p 0 data = Inr ([], data)"
| "unpack_each ua p (Suc n) data =
     bind (unpack ua p data) (\<lambda>(v, data).
     bind (unpack_each ua p n data) (\<lambda>(vs, data). Inr (v # vs, data)))"

definition unpack_array :: "ua \<Rightarrow> primitive \<Rightarrow> Buffer \<Rightarrow> error + (pyval \<times> Buffer)" where
  "unpack_array ua p data =
     bind (unpack_integer Fi data) (\<lambda>(length, data).
       if length = - 1 then Inr (PNone, data)
       else if length = 0 then Inr (PList [], data)
       else bind (unpack_each ua p (nat length) data) (\<lambda>(vs, data). Inr (PList vs, data)))"

subsection \<open>The values of a fixed-width scalar type\<close>

text \<open>
  The values a format of \<^verbatim>\<open>_Primitive1\<close> carries: the integers of its range, the two
  truth values, every binary64 pattern for \<^verbatim>\<open>d\<close>, and for \<^verbatim>\<open>f\<close> the binary64 patterns
  that are the widening of a binary32 one. An array of such a type is \<^verbatim>\<open>None\<close> or a list
  of its values short enough for the \<^verbatim>\<open>Int32\<close> length prefix.
\<close>

fun in_range :: "fmtchar \<Rightarrow> int \<Rightarrow> bool" where
  "in_range c x =
     (if signed c then - (2 ^ (8 * calcsize c - 1)) \<le> x \<and> x < 2 ^ (8 * calcsize c - 1)
      else 0 \<le> x \<and> x < 2 ^ (8 * calcsize c))"

fun is_value_of :: "ua \<Rightarrow> fmtchar \<Rightarrow> pyval \<Rightarrow> bool" where
  "is_value_of ua Fbool v = (case v of PBool b \<Rightarrow> True | _ \<Rightarrow> False)"
| "is_value_of ua Fd v = (case v of PFloat w \<Rightarrow> True | _ \<Rightarrow> False)"
| "is_value_of ua Ff v =
     (case v of
        PFloat w \<Rightarrow> (case single_of_float ua w of Inr s \<Rightarrow> float_of_single ua s = w | Inl e \<Rightarrow> False)
      | _ \<Rightarrow> False)"
| "is_value_of ua c v = (case v of PInt x \<Rightarrow> in_range c x | _ \<Rightarrow> False)"

fun is_array_of :: "ua \<Rightarrow> fmtchar \<Rightarrow> pyval \<Rightarrow> bool" where
  "is_array_of ua c PNone = True"
| "is_array_of ua c (PList xs) = (length xs < 2 ^ 31 \<and> list_all (is_value_of ua c) xs)"
| "is_array_of ua c v = False"

subsection \<open>NodeId\<close>

text \<open>
  Modelled from the spec: the class \<^verbatim>\<open>ua.NodeId\<close> is not part of the sources. A NodeId
  has a type, a namespace index, an identifier and the optional namespace URI and server
  index; \<^verbatim>\<open>ua.NodeId()\<close> is the null NodeId in two-byte form, with neither option.
\<close>

definition NodeId_new :: pyval where
  "NodeId_new = PNodeId (PInt 0) (PInt 0) TwoByte PNone PNone"

text \<open>
  The last branch of \<^verbatim>\<open>nodeid_to_binary\<close> (\<^verbatim>\<open>nodeid.Identifier.to_binary()\<close>) is for a
  \<^verbatim>\<open>NodeIdType\<close> other than the six members; there is none.
\<close>

fun nodeid_to_binary :: "ua \<Rightarrow> pyval \<Rightarrow> error + bytes" where
  "nodeid_to_binary ua (PNodeId Identifier NamespaceIndex NodeIdType NamespaceUri ServerIndex) =
     (case NodeIdType of
        TwoByte \<Rightarrow>
          struct_pack ua [FB, FB] [PInt (int (value_of_NodeIdType NodeIdType)), Identifier]
      | FourByte \<Rightarrow>
          struct_pack ua [FB, FB, FH]
            [PInt (int (value_of_NodeIdType NodeIdType)), NamespaceIndex, Identifier]
      | Numeric \<Rightarrow>
          struct_pack ua [FB, FH, FI]
            [PInt (int (value_of_NodeIdType NodeIdType)), NamespaceIndex, Identifier]
      | String_nid \<Rightarrow>
          bind (struct_pack ua [FB, FH]
                  [PInt (int (value_of_NodeIdType NodeIdType)), NamespaceIndex]) (\<lambda>h.
          bind (pack ua String_prim Identifier) (\<lambda>b. Inr (h @ b)))
      | ByteString_nid \<Rightarrow>
          bind (struct_pack ua [FB, FH]
                  [PInt (int (value_of_NodeIdType NodeIdType)), NamespaceIndex]) (\<lambda>h.
          bind (pack ua Bytes_prim Identifier) (\<lambda>b. Inr (h @ b)))
      | Guid_nid \<Rightarrow>
          bind (struct_pack ua [FB, FH]
                  [PInt (int (value_of_NodeIdType NodeIdType)), NamespaceIndex]) (\<lambda>h.
          bind (pack ua Guid_prim Identifier) (\<lambda>b. Inr (h @ b))))"
| "nodeid_to_binary ua nodeid = Inl AttributeError"

text \<open>
  \<^verbatim>\<open>nodeid_from_binary\<close> starts from \<^verbatim>\<open>ua.NodeId()\<close> and sets what it reads; an attribute it
  does not set keeps the value it has in \<open>NodeId_new\<close>. \<^verbatim>\<open>ua.NodeIdType(n)\<close> refuses a tag
  that is no member, so the \<^verbatim>\<open>else\<close> of the source is never reached.
\<close>

definition nodeid_from_binary :: "ua \<Rightarrow> Buffer \<Rightarrow> error + (pyval \<times> Buffer)" where
  "nodeid_from_binary ua data =
     bind (read data 1) (\<lambda>(b, data).
     let encoding = int (le_value b) in
     bind (NodeIdType_of (nat (encoding AND 63))) (\<lambda>nidtype.
     bind (case nidtype of
             TwoByte \<Rightarrow>
               bind (read data 1) (\<lambda>(b, data). Inr (PInt 0, PInt (int (le_value b)), data))
           | FourByte \<Rightarrow>
               bind (read data 3) (\<lambda>(b, data).
                 Inr (struct_unpack1 ua FB (take 1 b), struct_unpack1 ua FH (drop 1 b), data))
           | Numeric \<Rightarrow>
               bind (read data 6) (\<lambda>(b, data).
                 Inr (struct_unpack1 ua FH (take 2 b), struct_unpack1 ua FI (drop 2 b), data))
           | String_nid \<Rightarrow>
               bind (unpack ua (Primitive1 FH) data) (\<lambda>(ns, data).
               bind (unpack ua String_prim data) (\<lambda>(ident, data). Inr (ns, ident, data)))
           | ByteString_nid \<Rightarrow>
               bind (unpack ua (Primitive1 FH) data) (\<lambda>(ns, data).
               bind (unpack ua Bytes_prim data) (\<lambda>(ident, data). Inr (ns, ident, data)))
           | Guid_nid \<Rightarrow>
               bind (unpack ua (Primitive1 FH) data) (\<lambda>(ns, data).
               bind (unpack ua Guid_prim data) (\<lambda>(ident, data). Inr (ns, ident, data))))
       (\<lambda>(NamespaceIndex, Identifier, data).
     bind (if test_bit encoding 7 \<noteq> 0 then unpack ua String_prim data else Inr (PNone, data))
       (\<lambda>(NamespaceUri, data).
     bind (if test_bit encoding 6 \<noteq> 0 then unpack ua (Primitive1 FI) data else Inr (PNone, data))
       (\<lambda>(ServerIndex, data).
     Inr (PNodeId Identifier NamespaceIndex nidtype NamespaceUri ServerIndex, data))))))"

text \<open>
  The form the spec asks of an encoder that is free to choose: the smallest of the three
  numeric forms whose ranges admit the namespace index and the identifier (TwoByte:
  namespace 0 and a \<^verbatim>\<open>UInt8\<close> identifier; FourByte: a \<^verbatim>\<open>UInt8\<close> namespace and a \<^verbatim>\<open>UInt16\<close>
  identifier; Numeric: a \<^verbatim>\<open>UInt16\<close> namespace and a \<^verbatim>\<open>UInt32\<close> identifier).
\<close>

definition admits :: "NodeIdType \<Rightarrow> int \<Rightarrow> int \<Rightarrow> bool" where
  "admits t ns ident =
     (case t of
        TwoByte \<Rightarrow> ns = 0 \<and> 0 \<le> ident \<and> ident < 2 ^ 8
      | FourByte \<Rightarrow> 0 \<le> ns \<and> ns < 2 ^ 8 \<and> 0 \<le> ident \<and> ident < 2 ^ 16
      | Numeric \<Rightarrow> 0 \<le> ns \<and> ns < 2 ^ 16 \<and> 0 \<le> ident \<and> ident < 2 ^ 32
      | _ \<Rightarrow> False)"

definition smallest_form :: "int \<Rightarrow> int \<Rightarrow> NodeIdType option" where
  "smallest_form ns ident = find (\<lambda>t. admits t ns ident) [TwoByte, FourByte, Numeric]"

subsection \<open>Iteration\<close>

text \<open>
  \<open>traverse f xs\<close> is \<^verbatim>\<open>b"".join([f(x) for x in xs])\<close>; \<open>repeat n f data\<close> is
  \<^verbatim>\<open>[f(data) for _ in range(n)]\<close>, each call reading on where the last one stopped;
  \<open>sequence\<close> collects the results of a comprehension, the first exception first.
\<close>

fun traverse :: "('a \<Rightarrow> error + bytes) \<Rightarrow> 'a list \<Rightarrow> error + bytes" where
  "traverse f [] = Inr []"
| "traverse f (x # xs) = bind (f x) (\<lambda>b. bind (traverse f xs) (\<lambda>bs. Inr (b @ bs)))"

fun repeat :: "nat \<Rightarrow> (Buffer \<Rightarrow> error + ('a \<times> Buffer)) \<Rightarrow> Buffer \<Rightarrow> error + ('a list \<times> Buffer)"
  where
  "repeat 0 f data = Inr ([], data)"
| "repeat (Suc n) f data =
     bind (f data) (\<lambda>(v, data). bind (repeat n f data) (\<lambda>(vs, data). Inr (v # vs, data)))"

fun sequence :: "(error + 'a) list \<Rightarrow> error + 'a list" where
  "sequence [] = Inr []"
| "sequence (m # ms) = bind m (\<lambda>x. bind (sequence ms) (\<lambda>xs. Inr (x # xs)))"

lemma bind_cong [fundef_cong]:
  "m = m' \<Longrightarrow> (\<And>x. m' = Inr x \<Longrightarrow> f x = f' x) \<Longrightarrow> bind m f = bind m' f'"
  by (cases m') (simp_all add: bind_def)

lemma traverse_cong [fundef_cong]:
  "xs = ys \<Longrightarrow> (\<And>x. x \<in> set ys \<Longrightarrow> f x = g x) \<Longrightarrow> traverse f xs = traverse g ys"
  by (induction ys arbitrary: xs) (auto simp: bind_def split: sum.splits)

subsection \<open>Reshaping a flat array\<close>

text \<open>
  Modelled from the spec: \<^verbatim>\<open>ua.flatten\<close> is not part of the sources. A Variant that is an
  array encodes its values as a flat sequence: the values of the nested lists in order,
  \<^verbatim>\<open>None\<close> for \<^verbatim>\<open>None\<close>.
\<close>

fun leaves :: "pyval \<Rightarrow> pyval list" where
  "leaves (PList xs) = concat (map leaves xs)"
| "leaves (PTuple xs) = concat (map leaves xs)"
| "leaves v = [v]"

fun flatten :: "pyval \<Rightarrow> error + pyval" where
  "flatten PNone = Inr PNone"
| "flatten (PList xs) = Inr (PList (concat (map leaves xs)))"
| "flatten (PTuple xs) = Inr (PList (concat (map leaves xs)))"
| "flatten v = Inl TypeError"

text \<open>\<^verbatim>\<open>len(x)\<close>, \<^verbatim>\<open>x[i:j]\<close> for \<open>0 \<le> i \<le> j\<close> and \<^verbatim>\<open>range(0, n, step)\<close>.\<close>

definition len :: "pyval \<Rightarrow> error + nat" where
  "len x = bind (items x) (\<lambda>xs. Inr (length xs))"

fun slice :: "pyval \<Rightarrow> nat \<Rightarrow> nat \<Rightarrow> pyval" where
  "slice (PList xs) i j = PList (take (j - i) (drop i xs))"
| "slice (PTuple xs) i j = PTuple (take (j - i) (drop i xs))"
| "slice (PBytes xs) i j = PBytes (take (j - i) (drop i xs))"
| "slice (PStr xs) i j = PStr (take (j - i) (drop i xs))"
| "slice v i j = v"

definition range0 :: "nat \<Rightarrow> int \<Rightarrow> nat list" where
  "range0 n step =
     (if step > 0 then map (\<lambda>k. k * nat step) [0 ..< (n + nat step - 1) div nat step] else [])"

text \<open>
  \<^verbatim>\<open>_reshape(flat, dims)\<close> for a list \<open>dims\<close> of integers; \<open>stride\<close> is its \<^verbatim>\<open>for\<close> loop,
  the product of \<open>dims[1:]\<close> with 1 for 0. The \<^verbatim>\<open>while\<close> loop appends an
  empty list until \<open>flat\<close> has \<open>dims[0] * subsize\<close> items; only a list can be appended to.
  \<open>reshape_value\<close> is the call \<^verbatim>\<open>_reshape(value, dimensions)\<close> of \<^verbatim>\<open>variant_from_binary\<close>,
  where \<open>dimensions\<close> is what \<^verbatim>\<open>unpack_uatype_array\<close> returned.
\<close>

definition stride :: "int list \<Rightarrow> int" where
  "stride subdims = foldl (\<lambda>subsize i. subsize * (if i = 0 then 1 else i)) 1 subdims"

fun reshape :: "pyval \<Rightarrow> int list \<Rightarrow> error + pyval" where
  "reshape flat [] = Inl IndexError"
| "reshape flat (d # subdims) =
     (let subsize = stride subdims in
      bind (len flat) (\<lambda>n.
      bind (if d * subsize > int n then
              (case flat of
                 PList xs \<Rightarrow> Inr (PList (xs @ replicate (nat (d * subsize - int n)) (PList [])))
               | _ \<Rightarrow> Inl AttributeError)
            else Inr flat) (\<lambda>flat.
      if subdims = [] \<or> subdims = [0] then Inr flat
      else
        bind (len flat) (\<lambda>n.
        bind (sequence (map (\<lambda>i. reshape (slice flat i (i + nat subsize)) subdims)
                         (range0 n subsize))) (\<lambda>rs. Inr (PList rs))))))"

fun ints_of :: "pyval list \<Rightarrow> int list option" where
  "ints_of [] = Some []"
| "ints_of (PInt i # xs) = map_option ((#) i) (ints_of xs)"
| "ints_of (x # xs) = None"

definition reshape_value :: "pyval \<Rightarrow> pyval \<Rightarrow> error + pyval" where
  "reshape_value flat dims =
     (case dims of
        PList ds \<Rightarrow> (case ints_of ds of None \<Rightarrow> Inl TypeError | Some is \<Rightarrow> reshape flat is)
      | _ \<Rightarrow> Inl TypeError)"

subsection \<open>Objects and their attributes\<close>

text \<open>
  \<^verbatim>\<open>getattr(obj, name)\<close> and \<^verbatim>\<open>setattr(obj, name, val)\<close> on the instance attributes of an
  object, \<^verbatim>\<open>s.startswith(p)\<close>, \<^verbatim>\<open>isinstance(val, (list, tuple))\<close> and
  \<^verbatim>\<open>obj.__class__.__name__\<close>.
\<close>

definition getattr :: "(string \<times> pyval) list \<Rightarrow> string \<Rightarrow> error + pyval" where
  "getattr attrs name = (case map_of attrs name of None \<Rightarrow> Inl AttributeError | Some v \<Rightarrow> Inr v)"

fun setattr :: "(string \<times> pyval) list \<Rightarrow> string \<Rightarrow> pyval \<Rightarrow> (string \<times> pyval) list" where
  "setattr [] name val = [(name, val)]"
| "setattr ((k, v) # attrs) name val =
     (if k = name then (k, val) # attrs else (k, v) # setattr attrs name val)"

definition startswith :: "string \<Rightarrow> string \<Rightarrow> bool" where
  "startswith s p = (take (length p) s = p)"

fun is_list :: "pyval \<Rightarrow> bool" where
  "is_list (PList xs) = True"
| "is_list (PTuple xs) = True"
| "is_list v = False"

fun class_name :: "pyval \<Rightarrow> string" where
  "class_name PNone = ''NoneType''"
| "class_name (PBool b) = ''bool''"
| "class_name (PInt i) = ''int''"
| "class_name (PFloat w) = ''float''"
| "class_name (PStr s) = ''str''"
| "class_name (PBytes b) = ''bytes''"
| "class_name (PList xs) = ''list''"
| "class_name (PTuple xs) = ''tuple''"
| "class_name (PDateTime t) = ''datetime''"
| "class_name (PUUID u) = ''UUID''"
| "class_name (PEnum c i v) = c"
| "class_name (PNodeId i n t u s) = ''NodeId''"
| "class_name (PVariant v t d a) = ''Variant''"
| "class_name (PObject c t s a) = c"

text \<open>
  Modelled from the spec: the class \<^verbatim>\<open>ua.ExtensionObject\<close> is not part of the sources. The
  opaque ExtensionObject has a type_id, the encoding byte and the optional body bytes,
  emitted in that order, the body when bit 0 of the encoding says so; a new one has the
  null NodeId, encoding 0 and no body.
\<close>

definition ExtensionObject_new :: pyval where
  "ExtensionObject_new =
     PObject ''ExtensionObject''
       [(''TypeId'', ''NodeId''), (''Encoding'', ''Byte''), (''Body'', ''ByteString'')]
       (Some [(''Body'', ''Encoding'', 0)])
       [(''TypeId'', NodeId_new), (''Encoding'', PInt 0), (''Body'', PNone)]"

subsection \<open>Encoding structures, variants and extension objects\<close>

text \<open>
  The first loop of \<^verbatim>\<open>struct_to_binary\<close>: for every switch whose member is not \<^verbatim>\<open>None\<close> it
  stores \<^verbatim>\<open>container_val | 1 << idx\<close> back into the object. It returns the attributes as
  the loop leaves them, and the exception if it raised one.
\<close>

fun set_switches ::
  "(string \<times> string \<times> nat) list \<Rightarrow> (string \<times> pyval) list \<Rightarrow> (string \<times> pyval) list \<times> error option"
  where
  "set_switches [] attrs = (attrs, None)"
| "set_switches ((name, container_name, idx) # switches) attrs =
     (case map_of attrs name of
        None \<Rightarrow> (attrs, Some AttributeError)
      | Some member \<Rightarrow>
          if member \<noteq> PNone then
            (case map_of attrs container_name of
               None \<Rightarrow> (attrs, Some AttributeError)
             | Some container_val \<Rightarrow>
                 (case as_int container_val of
                    None \<Rightarrow> (attrs, Some TypeError)
                  | Some c \<Rightarrow>
                      set_switches switches
                        (setattr attrs container_name (PInt (c OR push_bit idx 1)))))
          else set_switches switches attrs)"

definition attrs_size :: "(string \<times> pyval) list \<Rightarrow> nat" where
  "attrs_size attrs = sum_list (map (\<lambda>(k, v). size v) attrs)"

lemma size_getattr: "getattr attrs name = Inr val \<Longrightarrow> size val \<le> attrs_size attrs"
  by (induction attrs) (auto simp: getattr_def attrs_size_def split: if_splits option.splits)

lemma attrs_size_setattr:
  "map_of attrs name = Some v \<Longrightarrow> attrs_size (setattr attrs name (PInt i)) \<le> attrs_size attrs"
  by (induction attrs) (auto simp: attrs_size_def split: if_splits)

lemma attrs_size_set_switches: "attrs_size (fst (set_switches switches attrs)) \<le> attrs_size attrs"
proof (induction switches attrs rule: set_switches.induct)
  case (1 attrs)
  show ?case by simp
next
  case (2 name container_name idx switches attrs)
  show ?case
  proof (cases "map_of attrs name")
    case None
    then show ?thesis by simp
  next
    case (Some member)
    show ?thesis
    proof (cases "member = PNone")
      case True
      with Some 2(2) show ?thesis by simp
    next
      case False
      show ?thesis
      proof (cases "map_of attrs container_name")
        case None
        with Some False show ?thesis by simp
      next
        case c: (Some container_val)
        show ?thesis
        proof (cases "as_int container_val")
          case None
          with Some False c show ?thesis by simp
        next
          case i: (Some i)
          from 2(1) [OF Some False c i] attrs_size_setattr [OF c]
          show ?thesis using Some False c i by (simp del: setattr.simps) (meson order_trans)
        qed
      qed
    qed
  qed
qed

lemma size_getattr_switched:
  assumes "getattr (fst (case sw of None \<Rightarrow> (attrs, None) | Some s \<Rightarrow> set_switches s attrs)) name
             = Inr val"
  shows "size val \<le> size_list (size_prod (\<lambda>x. 0) size) attrs"
proof -
  have "attrs_size attrs \<le> size_list (size_prod (\<lambda>x. 0) size) attrs"
    by (induction attrs) (auto simp: attrs_size_def)
  moreover have "attrs_size (fst (case sw of None \<Rightarrow> (attrs, None)
                                 | Some s \<Rightarrow> set_switches s attrs)) \<le> attrs_size attrs"
    using attrs_size_set_switches by (cases sw) auto
  ultimately show ?thesis using size_getattr [OF assms] by linarith
qed

lemma size_item: "items v = Inr xs \<Longrightarrow> x \<in> set xs \<Longrightarrow> size x \<le> size v"
  by (cases v) (auto dest: size_list_estimation' [where f = size and y = "size x", OF _ order_refl])

lemma size_item_list:
  "is_list v \<Longrightarrow> items v = Inr xs \<Longrightarrow> x \<in> set xs \<Longrightarrow> size x < size v"
  by (cases v) (auto dest: size_list_estimation' [where f = size and y = "size x", OF _ order_refl])

lemma size_list_concat_leaves:
  assumes "\<And>x. x \<in> set xs \<Longrightarrow> size_list size (leaves x) \<le> Suc (size x)"
  shows "size_list size (concat (map leaves xs)) \<le> size_list size xs"
  using assms
proof (induction xs)
  case Nil
  show ?case by simp
next
  case (Cons a xs)
  have "size_list size (leaves a) \<le> Suc (size a)" by (rule Cons.prems) simp
  moreover have "size_list size (concat (map leaves xs)) \<le> size_list size xs"
    by (rule Cons.IH) (simp add: Cons.prems)
  ultimately show ?case by (simp add: size_list_append)
qed

lemma size_list_leaves: "size_list size (leaves v) \<le> Suc (size v)"
proof (induction v)
  case (PList xs)
  from size_list_concat_leaves [of xs, OF PList] show ?case by simp
next
  case (PTuple xs)
  from size_list_concat_leaves [of xs, OF PTuple] show ?case by simp
qed simp_all

lemma size_flatten: "flatten v = Inr w \<Longrightarrow> size w \<le> size v"
  using size_list_concat_leaves [OF size_list_leaves] by (cases v) auto

text \<open>
  The encoders return the bytes; the fields of a structure are emitted from the
  attributes as the first loop left them.
\<close>

function pack_uatype :: "ua \<Rightarrow> VariantType \<Rightarrow> pyval \<Rightarrow> error + bytes"
  and pack_uatype_array :: "ua \<Rightarrow> VariantType \<Rightarrow> pyval \<Rightarrow> error + bytes"
  and struct_to_binary :: "ua \<Rightarrow> pyval \<Rightarrow> error + bytes"
  and to_binary :: "ua \<Rightarrow> string \<Rightarrow> pyval \<Rightarrow> error + bytes"
  and list_to_binary :: "ua \<Rightarrow> string \<Rightarrow> pyval \<Rightarrow> error + bytes"
  and variant_to_binary :: "ua \<Rightarrow> pyval \<Rightarrow> error + bytes"
  and extensionobject_to_binary :: "ua \<Rightarrow> pyval \<Rightarrow> error + bytes"
  where
  "pack_uatype ua vtype val =
     (case Primitives (name_of vtype) of
        Some p \<Rightarrow> pack ua p val
      | None \<Rightarrow>
          if value_of vtype > 25 then pack ua Bytes_prim val
          else if vtype = ExtensionObject then extensionobject_to_binary ua val
          else if vtype = NodeId \<or> vtype = ExpandedNodeId then nodeid_to_binary ua val
          else if vtype = Variant then variant_to_binary ua val
          else struct_to_binary ua val)"
| "pack_uatype_array ua vtype array =
     (if array = PNone then Inr [0xff, 0xff, 0xff, 0xff]
      else
        bind (items array) (\<lambda>xs.
        bind (traverse (pack_uatype ua vtype) xs) (\<lambda>b.
        bind (pack ua (Primitive1 Fi) (PInt (int (length xs)))) (\<lambda>l. Inr (l @ b)))))"
| "struct_to_binary ua obj =
     (case obj of
        PObject c ua_types ua_switches attrs \<Rightarrow>
          (let has_switch = (ua_switches \<noteq> None);
               switched = (case ua_switches of
                             None \<Rightarrow> (attrs, None)
                           | Some switches \<Rightarrow> set_switches switches attrs)
           in
           case snd switched of
             Some e \<Rightarrow> Inl e
           | None \<Rightarrow>
               traverse (\<lambda>(name, uatype).
                 bind (getattr (fst switched) name) (\<lambda>val.
                   if startswith uatype ''ListOf'' then list_to_binary ua (drop 6 uatype) val
                   else if has_switch \<and> val = PNone
                             \<and> name \<in> fst ` set (case ua_switches of None \<Rightarrow> [] | Some s \<Rightarrow> s)
                   then Inr []
                   else to_binary ua uatype val)) ua_types)
      | _ \<Rightarrow> Inl AttributeError)"
| "to_binary ua uatype val =
     (if is_list val then
        bind (items val) (\<lambda>xs.
        bind (traverse (to_binary ua uatype) xs) (\<lambda>b.
        bind (pack ua (Primitive1 Fi) (PInt (int (length xs)))) (\<lambda>l. Inr (l @ b))))
      else
        (case VariantType_named uatype of
           Some vtype \<Rightarrow> pack_uatype ua vtype val
         | None \<Rightarrow>
             (case val of
                PEnum c i v \<Rightarrow> pack ua (Primitive1 FI) (PInt v)
              | PNodeId i n t u s \<Rightarrow> nodeid_to_binary ua val
              | PVariant v t d a \<Rightarrow> variant_to_binary ua val
              | PObject c t s a \<Rightarrow> struct_to_binary ua val
              | _ \<Rightarrow> Inl UaError)))"
| "list_to_binary ua uatype val =
     (if val = PNone then pack ua (Primitive1 Fi) (PInt (- 1))
      else
        bind (items val) (\<lambda>xs.
        bind (pack ua (Primitive1 Fi) (PInt (int (length xs)))) (\<lambda>l.
        bind (traverse (to_binary ua uatype) xs) (\<lambda>b. Inr (l @ b)))))"
| "variant_to_binary ua var =
     (case var of
        PVariant Value VariantType Dimensions is_array \<Rightarrow>
          (let encoding = int (value_of VariantType) AND 63 in
           if is_array \<or> is_list Value then
             (let encoding = set_bit encoding 7;
                  encoding = (if Dimensions \<noteq> PNone then set_bit encoding 6 else encoding)
              in
              bind (pack ua (Primitive1 FB) (PInt encoding)) (\<lambda>b1.
              bind (flatten Value) (\<lambda>flat.
              bind (pack_uatype_array ua VariantType flat) (\<lambda>b2.
              if Dimensions \<noteq> PNone
              then bind (pack_uatype_array ua Int32 Dimensions) (\<lambda>b3. Inr (b1 @ b2 @ b3))
              else Inr (b1 @ b2)))))
           else
             bind (pack ua (Primitive1 FB) (PInt encoding)) (\<lambda>b1.
             bind (pack_uatype ua VariantType Value) (\<lambda>b2. Inr (b1 @ b2))))
      | _ \<Rightarrow> Inl AttributeError)"
| "extensionobject_to_binary ua obj =
     (if class_name obj = ''ExtensionObject'' then struct_to_binary ua obj
      else
        bind (if obj = PNone then Inr (NodeId_new, 0, PNone)
              else
                bind (case extension_object_ids ua (class_name obj) of
                        None \<Rightarrow> Inl KeyError
                      | Some t \<Rightarrow> Inr t) (\<lambda>TypeId.
                bind (struct_to_binary ua obj) (\<lambda>Body. Inr (TypeId, 1, PBytes Body))))
          (\<lambda>(TypeId, Encoding, Body).
        bind (nodeid_to_binary ua TypeId) (\<lambda>b1.
        bind (pack ua (Primitive1 FB) (PInt Encoding)) (\<lambda>b2.
        if truthy Body then bind (pack ua Bytes_prim Body) (\<lambda>b3. Inr (b1 @ b2 @ b3))
        else Inr (b1 @ b2)))))"
  by pat_completeness auto
termination
  apply (relation "measure (\<lambda>x. case x of
    Inl (Inl (ua, vtype, v)) \<Rightarrow> 8 * size v + 2
  | Inl (Inr (Inl (ua, vtype, v))) \<Rightarrow> 8 * size v + 3
  | Inl (Inr (Inr (ua, v))) \<Rightarrow> 8 * size v
  | Inr (Inl (Inl (ua, uatype, v))) \<Rightarrow> 8 * size v + 3
  | Inr (Inl (Inr (ua, uatype, v))) \<Rightarrow> 8 * size v + 4
  | Inr (Inr (Inl (ua, v))) \<Rightarrow> 8 * size v
  | Inr (Inr (Inr (ua, v))) \<Rightarrow> 8 * size v + 1)")
  apply simp_all
  subgoal by (drule (1) size_item) simp
  subgoal by (drule size_getattr_switched) simp
  subgoal by (drule size_getattr_switched) simp
  subgoal by (rule size_item_list)
  subgoal by (drule (1) size_item) simp
  subgoal by (drule size_flatten) simp
  done

subsection \<open>The encoders and their argument\<close>

text \<open>
  The encoders once more, with what they leave in their argument. \<^verbatim>\<open>variant_to_binary\<close>
  assigns to \<^verbatim>\<open>var.is_array\<close> and \<^verbatim>\<open>struct_to_binary\<close> to the bitmask fields of the object,
  and both encode the values nested in their argument with the same functions, which
  assign to those in turn. Objects are modelled by value: a function \<open>f_run\<close> returns its
  argument as the call \<^verbatim>\<open>f\<close> leaves it, whether the call returns or raises, and the result
  of the call. An element or an attribute that a nested call was given is put back where
  it came from, as the nested call left it: \<open>put_items\<close> for the elements of a list or a
  tuple, \<open>put_leaves\<close> for the values of the flat list \<^verbatim>\<open>ua.flatten\<close> makes, \<open>setattr\<close> for an
  attribute. A loop stops at the first exception, with the assignments made so far:
  \<open>traverse_run\<close> is a comprehension over the elements, \<open>fields_run\<close> the second loop of
  \<^verbatim>\<open>struct_to_binary\<close> with the attributes it carries, \<open>field_run\<close> the body of that loop.
  Like the decoders, these functions take the depth of calls that is left: every call of
  one encoder by another takes one, and a call with none left is Python's
  \<^verbatim>\<open>RecursionError\<close> and assigns nothing.
\<close>

fun traverse_run :: "('a \<Rightarrow> 'a \<times> (error + bytes)) \<Rightarrow> 'a list \<Rightarrow> 'a list \<times> (error + bytes)" where
  "traverse_run f [] = ([], Inr [])"
| "traverse_run f (x # xs) =
     (let (x', r) = f x in
      case r of
        Inl e \<Rightarrow> (x' # xs, Inl e)
      | Inr b \<Rightarrow>
          (let (xs', r') = traverse_run f xs in
           (x' # xs', bind r' (\<lambda>bs. Inr (b @ bs)))))"

fun fields_run ::
  "('a \<Rightarrow> 's \<Rightarrow> 's \<times> (error + bytes)) \<Rightarrow> 'a list \<Rightarrow> 's \<Rightarrow> 's \<times> (error + bytes)" where
  "fields_run f [] s = (s, Inr [])"
| "fields_run f (x # xs) s =
     (let (s', r) = f x s in
      case r of
        Inl e \<Rightarrow> (s', Inl e)
      | Inr b \<Rightarrow>
          (let (s'', r') = fields_run f xs s' in
           (s'', bind r' (\<lambda>bs. Inr (b @ bs)))))"

definition field_run ::
  "(string \<Rightarrow> pyval \<Rightarrow> pyval \<times> (error + bytes)) \<Rightarrow>
   (string \<Rightarrow> pyval \<Rightarrow> pyval \<times> (error + bytes)) \<Rightarrow>
   bool \<Rightarrow> (string \<times> string \<times> nat) list option \<Rightarrow>
   string \<times> string \<Rightarrow> (string \<times> pyval) list \<Rightarrow> (string \<times> pyval) list \<times> (error + bytes)"
  where
  "field_run encode_list encode has_switch ua_switches =
     (\<lambda>(name, uatype) attrs.
        case getattr attrs name of
          Inl e \<Rightarrow> (attrs, Inl e)
        | Inr val \<Rightarrow>
            if startswith uatype ''ListOf'' then
              (let (val', r) = encode_list (drop 6 uatype) val
               in (setattr attrs name val', r))
            else if has_switch \<and> val = PNone
                      \<and> name \<in> fst ` set (case ua_switches of None \<Rightarrow> [] | Some s \<Rightarrow> s)
            then (attrs, Inr [])
            else
              (let (val', r) = encode uatype val
               in (setattr attrs name val', r)))"

fun put_items :: "pyval \<Rightarrow> pyval list \<Rightarrow> pyval" where
  "put_items (PList xs) xs' = PList xs'"
| "put_items (PTuple xs) xs' = PTuple xs'"
| "put_items v xs' = v"

fun fill :: "pyval \<Rightarrow> pyval list \<Rightarrow> pyval \<times> pyval list"
  and fill_list :: "pyval list \<Rightarrow> pyval list \<Rightarrow> pyval list \<times> pyval list" where
  "fill (PList xs) ls = (let (xs', ls') = fill_list xs ls in (PList xs', ls'))"
| "fill (PTuple xs) ls = (let (xs', ls') = fill_list xs ls in (PTuple xs', ls'))"
| "fill v [] = (v, [])"
| "fill v (l # ls) = (l, ls)"
| "fill_list [] ls = ([], ls)"
| "fill_list (x # xs) ls =
     (let (x', ls') = fill x ls; (xs', ls'') = fill_list xs ls' in (x' # xs', ls''))"

definition put_leaves :: "pyval \<Rightarrow> pyval \<Rightarrow> pyval" where
  "put_leaves v flat = (case flat of PList ls \<Rightarrow> fst (fill v ls) | _ \<Rightarrow> v)"

function pack_uatype_run :: "ua \<Rightarrow> nat \<Rightarrow> VariantType \<Rightarrow> pyval \<Rightarrow> pyval \<times> (error + bytes)"
  and pack_uatype_array_run :: "ua \<Rightarrow> nat \<Rightarrow> VariantType \<Rightarrow> pyval \<Rightarrow> pyval \<times> (error + bytes)"
  and struct_to_binary_run :: "ua \<Rightarrow> nat \<Rightarrow> pyval \<Rightarrow> pyval \<times> (error + bytes)"
  and to_binary_run :: "ua \<Rightarrow> nat \<Rightarrow> string \<Rightarrow> pyval \<Rightarrow> pyval \<times> (error + bytes)"
  and list_to_binary_run :: "ua \<Rightarrow> nat \<Rightarrow> string \<Rightarrow> pyval \<Rightarrow> pyval \<times> (error + bytes)"
  and variant_to_binary_run :: "ua \<Rightarrow> nat \<Rightarrow> pyval \<Rightarrow> pyval \<times> (error + bytes)"
  and extensionobject_to_binary_run :: "ua \<Rightarrow> nat \<Rightarrow> pyval \<Rightarrow> pyval \<times> (error + bytes)"
  where
  "pack_uatype_run ua 0 vtype val = (val, Inl RecursionError)"
| "pack_uatype_run ua (Suc depth) vtype val =
     (case Primitives (name_of vtype) of
        Some p \<Rightarrow> (val, pack ua p val)
      | None \<Rightarrow>
          if value_of vtype > 25 then (val, pack ua Bytes_prim val)
          else if vtype = ExtensionObject then extensionobject_to_binary_run ua depth val
          else if vtype = NodeId \<or> vtype = ExpandedNodeId then (val, nodeid_to_binary ua val)
          else if vtype = Variant then variant_to_binary_run ua depth val
          else struct_to_binary_run ua depth val)"
| "pack_uatype_array_run ua 0 vtype array = (array, Inl RecursionError)"
| "pack_uatype_array_run ua (Suc depth) vtype array =
     (if array = PNone then (array, Inr [0xff, 0xff, 0xff, 0xff])
      else
        (case items array of
           Inl e \<Rightarrow> (array, Inl e)
         | Inr xs \<Rightarrow>
             (let (xs', r) = traverse_run (pack_uatype_run ua depth vtype) xs in
              (put_items array xs',
               bind r (\<lambda>b.
               bind (pack ua (Primitive1 Fi) (PInt (int (length xs)))) (\<lambda>l. Inr (l @ b)))))))"
| "struct_to_binary_run ua 0 obj = (obj, Inl RecursionError)"
| "struct_to_binary_run ua (Suc depth) obj =
     (case obj of
        PObject c ua_types ua_switches attrs \<Rightarrow>
          (let has_switch = (ua_switches \<noteq> None);
               switched = (case ua_switches of
                             None \<Rightarrow> (attrs, None)
                           | Some switches \<Rightarrow> set_switches switches attrs)
           in
           case snd switched of
             Some e \<Rightarrow> (PObject c ua_types ua_switches (fst switched), Inl e)
           | None \<Rightarrow>
               (let (attrs', r) =
                  fields_run
                    (field_run (list_to_binary_run ua depth) (to_binary_run ua depth)
                       has_switch ua_switches)
                    ua_types (fst switched)
                in (PObject c ua_types ua_switches attrs', r)))
      | _ \<Rightarrow> (obj, Inl AttributeError))"
| "to_binary_run ua 0 uatype val = (val, Inl RecursionError)"
| "to_binary_run ua (Suc depth) uatype val =
     (if is_list val then
        (case items val of
           Inl e \<Rightarrow> (val, Inl e)
         | Inr xs \<Rightarrow>
             (let (xs', r) = traverse_run (to_binary_run ua depth uatype) xs in
              (put_items val xs',
               bind r (\<lambda>b.
               bind (pack ua (Primitive1 Fi) (PInt (int (length xs)))) (\<lambda>l. Inr (l @ b))))))
      else
        (case VariantType_named uatype of
           Some vtype \<Rightarrow> pack_uatype_run ua depth vtype val
         | None \<Rightarrow>
             (case val of
                PEnum c i v \<Rightarrow> (val, pack ua (Primitive1 FI) (PInt v))
              | PNodeId i n t u s \<Rightarrow> (val, nodeid_to_binary ua val)
              | PVariant v t d a \<Rightarrow> variant_to_binary_run ua depth val
              | PObject c t s a \<Rightarrow> struct_to_binary_run ua depth val
              | _ \<Rightarrow> (val, Inl UaError))))"
| "list_to_binary_run ua 0 uatype val = (val, Inl RecursionError)"
| "list_to_binary_run ua (Suc depth) uatype val =
     (if val = PNone then (val, pack ua (Primitive1 Fi) (PInt (- 1)))
      else
        (case items val of
           Inl e \<Rightarrow> (val, Inl e)
         | Inr xs \<Rightarrow>
             (case pack ua (Primitive1 Fi) (PInt (int (length xs))) of
                Inl e \<Rightarrow> (val, Inl e)
              | Inr l \<Rightarrow>
                  (let (xs', r) = traverse_run (to_binary_run ua depth uatype) xs in
                   (put_items val xs', bind r (\<lambda>b. Inr (l @ b)))))))"
| "variant_to_binary_run ua 0 var = (var, Inl RecursionError)"
| "variant_to_binary_run ua (Suc depth) var =
     (case var of
        PVariant Value VariantType Dimensions is_array \<Rightarrow>
          (let encoding = int (value_of VariantType) AND 63 in
           if is_array \<or> is_list Value then
             (let is_array = True;
                  encoding = set_bit encoding 7;
                  encoding = (if Dimensions \<noteq> PNone then set_bit encoding 6 else encoding)
              in
              case pack ua (Primitive1 FB) (PInt encoding) of
                Inl e \<Rightarrow> (PVariant Value VariantType Dimensions is_array, Inl e)
              | Inr b1 \<Rightarrow>
                  (case flatten Value of
                     Inl e \<Rightarrow> (PVariant Value VariantType Dimensions is_array, Inl e)
                   | Inr flat \<Rightarrow>
                       (let (flat', r2) = pack_uatype_array_run ua depth VariantType flat;
                            Value = put_leaves Value flat'
                        in
                        case r2 of
                          Inl e \<Rightarrow> (PVariant Value VariantType Dimensions is_array, Inl e)
                        | Inr b2 \<Rightarrow>
                            if Dimensions \<noteq> PNone then
                              (let (Dimensions, r3) =
                                 pack_uatype_array_run ua depth Int32 Dimensions
                               in (PVariant Value VariantType Dimensions is_array,
                                   bind r3 (\<lambda>b3. Inr (b1 @ b2 @ b3))))
                            else (PVariant Value VariantType Dimensions is_array,
                                  Inr (b1 @ b2)))))
           else
             (case pack ua (Primitive1 FB) (PInt encoding) of
                Inl e \<Rightarrow> (var, Inl e)
              | Inr b1 \<Rightarrow>
                  (let (Value, r2) = pack_uatype_run ua depth VariantType Value in
                   (PVariant Value VariantType Dimensions is_array,
                    bind r2 (\<lambda>b2. Inr (b1 @ b2))))))
      | _ \<Rightarrow> (var, Inl AttributeError))"
| "extensionobject_to_binary_run ua 0 obj = (obj, Inl RecursionError)"
| "extensionobject_to_binary_run ua (Suc depth) obj =
     (if class_name obj = ''ExtensionObject'' then struct_to_binary_run ua depth obj
      else
        (let (obj', r) =
           (if obj = PNone then (obj, Inr (NodeId_new, 0, PNone))
            else
              (case extension_object_ids ua (class_name obj) of
                 None \<Rightarrow> (obj, Inl KeyError)
               | Some TypeId \<Rightarrow>
                   (let (obj', r) = struct_to_binary_run ua depth obj in
                    (obj', bind r (\<lambda>Body. Inr (TypeId, 1, PBytes Body))))))
         in
         (obj',
          bind r (\<lambda>(TypeId, Encoding, Body).
          bind (nodeid_to_binary ua TypeId) (\<lambda>b1.
          bind (pack ua (Primitive1 FB) (PInt Encoding)) (\<lambda>b2.
          if truthy Body then bind (pack ua Bytes_prim Body) (\<lambda>b3. Inr (b1 @ b2 @ b3))
          else Inr (b1 @ b2)))))))"
  by pat_completeness auto
termination
  by (relation "measure (\<lambda>x. case x of
    Inl (Inl (ua, depth, r)) \<Rightarrow> depth
  | Inl (Inr (Inl (ua, depth, r))) \<Rightarrow> depth
  | Inl (Inr (Inr (ua, depth, r))) \<Rightarrow> depth
  | Inr (Inl (Inl (ua, depth, r))) \<Rightarrow> depth
  | Inr (Inl (Inr (ua, depth, r))) \<Rightarrow> depth
  | Inr (Inr (Inl (ua, depth, r))) \<Rightarrow> depth
  | Inr (Inr (Inr (ua, depth, r))) \<Rightarrow> depth)") simp_all

subsection \<open>Decoding structures, variants and extension objects\<close>

text \<open>
  The decoders call each other through the classes of \<^verbatim>\<open>opcua.ua\<close>, which may refer to
  themselves, so they take the depth of calls that is left: every call of one decoder by
  another takes one, and a call with none left is Python's \<^verbatim>\<open>RecursionError\<close>.
  \<open>uatype\<close> is the first argument of \<^verbatim>\<open>from_binary\<close> and \<^verbatim>\<open>struct_from_binary\<close>: a type
  name or a class. \<open>fold_fields\<close> is the loop over \<^verbatim>\<open>ua_types\<close>, which carries the
  attributes set so far and the buffer.
\<close>

datatype uatype = Str string | Class klass

fun fold_fields :: "('a \<Rightarrow> 's \<Rightarrow> error + 's) \<Rightarrow> 'a list \<Rightarrow> 's \<Rightarrow> error + 's" where
  "fold_fields f [] s = Inr s"
| "fold_fields f (x # xs) s = bind (f x s) (fold_fields f xs)"

function unpack_uatype :: "ua \<Rightarrow> nat \<Rightarrow> VariantType \<Rightarrow> Buffer \<Rightarrow> error + (pyval \<times> Buffer)"
  and unpack_uatype_array :: "ua \<Rightarrow> nat \<Rightarrow> VariantType \<Rightarrow> Buffer \<Rightarrow> error + (pyval \<times> Buffer)"
  and variant_from_binary :: "ua \<Rightarrow> nat \<Rightarrow> Buffer \<Rightarrow> error + (pyval \<times> Buffer)"
  and extensionobject_from_binary :: "ua \<Rightarrow> nat \<Rightarrow> Buffer \<Rightarrow> error + (pyval \<times> Buffer)"
  and from_binary :: "ua \<Rightarrow> nat \<Rightarrow> uatype \<Rightarrow> Buffer \<Rightarrow> error + (pyval \<times> Buffer)"
  and struct_from_binary :: "ua \<Rightarrow> nat \<Rightarrow> uatype \<Rightarrow> Buffer \<Rightarrow> error + (pyval \<times> Buffer)"
  where
  "unpack_uatype ua 0 vtype data = Inl RecursionError"
| "unpack_uatype ua (Suc depth) vtype data =
     (case Primitives (name_of vtype) of
        Some st \<Rightarrow> unpack ua st data
      | None \<Rightarrow>
          if value_of vtype > 25 then unpack ua Bytes_prim data
          else if vtype = ExtensionObject then extensionobject_from_binary ua depth data
          else if vtype = NodeId \<or> vtype = ExpandedNodeId then nodeid_from_binary ua data
          else if vtype = Variant then variant_from_binary ua depth data
          else
            (case classes ua (name_of vtype) of
               Some klass \<Rightarrow> struct_from_binary ua depth (Class klass) data
             | None \<Rightarrow> Inl UaError))"
| "unpack_uatype_array ua 0 vtype data = Inl RecursionError"
| "unpack_uatype_array ua (Suc depth) vtype data =
     (case Primitives (name_of vtype) of
        Some st \<Rightarrow> unpack_array ua st data
      | None \<Rightarrow>
          bind (unpack_integer Fi data) (\<lambda>(length, data).
            if length = - 1 then Inr (PNone, data)
            else bind (repeat (nat length) (unpack_uatype ua depth vtype) data)
                   (\<lambda>(vs, data). Inr (PList vs, data))))"
| "variant_from_binary ua 0 data = Inl RecursionError"
| "variant_from_binary ua (Suc depth) data =
     bind (read data 1) (\<lambda>(b, data).
     let encoding = int (le_value b);
         int_type = encoding AND 63;
         vtype = datatype_to_varianttype (nat int_type)
     in
     bind (if test_bit encoding 7 \<noteq> 0
           then bind (unpack_uatype_array ua depth vtype data)
                  (\<lambda>(val, data). Inr (val, True, data))
           else bind (unpack_uatype ua depth vtype data)
                  (\<lambda>(val, data). Inr (val, False, data)))
       (\<lambda>(val, array, data).
     bind (if test_bit encoding 6 \<noteq> 0
           then bind (unpack_uatype_array ua depth Int32 data) (\<lambda>(dimensions, data).
                bind (reshape_value val dimensions) (\<lambda>val. Inr (val, dimensions, data)))
           else Inr (val, PNone, data))
       (\<lambda>(val, dimensions, data).
     Inr (PVariant val vtype dimensions array, data))))"
| "extensionobject_from_binary ua 0 data = Inl RecursionError"
| "extensionobject_from_binary ua (Suc depth) data =
     bind (nodeid_from_binary ua data) (\<lambda>(typeid, data).
     bind (read data 1) (\<lambda>(b, data).
     let Encoding = int (le_value b) in
     bind (if Encoding AND 1 \<noteq> 0 then
             bind (unpack_integer Fi data) (\<lambda>(length, data).
               if length < 1 then Inr (Some (Buffer []), data)
               else
                 (let body = copy data length in
                  bind (skip data length) (\<lambda>data. Inr (Some body, data))))
           else Inr (None, data))
       (\<lambda>(body, data).
     if (case typeid of PNodeId Identifier n t u s \<Rightarrow> Identifier = PInt 0 | _ \<Rightarrow> False)
     then Inr (PNone, data)
     else
       (case extension_object_classes ua typeid of
          Some klass \<Rightarrow>
            (case body of
               None \<Rightarrow> Inl UaError
             | Some body \<Rightarrow>
                 bind (from_binary ua depth (Class klass) body) (\<lambda>(obj, body). Inr (obj, data)))
        | None \<Rightarrow>
            (case ExtensionObject_new of
               PObject c ua_types ua_switches attrs \<Rightarrow>
                 (let attrs = setattr attrs ''TypeId'' typeid;
                      attrs = setattr attrs ''Encoding'' (PInt Encoding)
                  in
                  case body of
                    Some body \<Rightarrow>
                      bind (read body (len_Buffer body)) (\<lambda>(b, body).
                        Inr (PObject c ua_types ua_switches (setattr attrs ''Body'' (PBytes b)),
                             data))
                  | None \<Rightarrow> Inr (PObject c ua_types ua_switches attrs, data))
             | e \<Rightarrow> Inr (e, data))))))"
| "from_binary ua 0 uatype data = Inl RecursionError"
| "from_binary ua (Suc depth) uatype data =
     (case uatype of
        Str s \<Rightarrow>
          if startswith s ''ListOf'' then
            bind (unpack_integer Fi data) (\<lambda>(size, data).
              if size = - 1 then Inr (PNone, data)
              else bind (repeat (nat size) (from_binary ua depth (Str (drop 6 s))) data)
                     (\<lambda>(res, data). Inr (PList res, data)))
          else
            (case VariantType_named s of
               Some vtype \<Rightarrow> unpack_uatype ua depth vtype data
             | None \<Rightarrow> struct_from_binary ua depth uatype data)
      | Class k \<Rightarrow> struct_from_binary ua depth uatype data)"
| "struct_from_binary ua 0 objtype data = Inl RecursionError"
| "struct_from_binary ua (Suc depth) objtype data =
     bind (case objtype of
             Str s \<Rightarrow> (case classes ua s of None \<Rightarrow> Inl AttributeError | Some k \<Rightarrow> Inr k)
           | Class k \<Rightarrow> Inr k) (\<lambda>objtype.
     case objtype of
       EnumClass c i members \<Rightarrow>
         bind (unpack_integer FI data) (\<lambda>(v, data).
           if v \<in> set members then Inr (PEnum c i v, data) else Inl ValueError)
     | StructClass c ua_types ua_switches attrs \<Rightarrow>
         bind (fold_fields (\<lambda>(name, uatype) (attrs, data).
                 bind (case ua_switches of
                         None \<Rightarrow> Inr True
                       | Some switches \<Rightarrow>
                           (case map_of switches name of
                              None \<Rightarrow> Inr True
                            | Some (container_name, idx) \<Rightarrow>
                                bind (getattr attrs container_name) (\<lambda>val.
                                  case as_int val of
                                    None \<Rightarrow> Inl TypeError
                                  | Some v \<Rightarrow> Inr (test_bit v idx \<noteq> 0)))) (\<lambda>present.
                 if \<not> present then Inr (attrs, data)
                 else bind (from_binary ua depth (Str uatype) data) (\<lambda>(val, data).
                        Inr (setattr attrs name val, data))))
               ua_types (attrs, data))
           (\<lambda>(attrs, data). Inr (PObject c ua_types ua_switches attrs, data)))"
  by pat_completeness auto
termination
  by (relation "measure (\<lambda>x. case x of
      Inl (Inl (ua, depth, r)) \<Rightarrow> depth
    | Inl (Inr (Inl (ua, depth, r))) \<Rightarrow> depth
    | Inl (Inr (Inr (ua, depth, r))) \<Rightarrow> depth
    | Inr (Inl (ua, depth, r)) \<Rightarrow> depth
    | Inr (Inr (Inl (ua, depth, r))) \<Rightarrow> depth
    | Inr (Inr (Inr (ua, depth, r))) \<Rightarrow> depth)") simp_all

subsection \<open>A module for examples\<close>

text \<open>
  A module with one registered extension-object class, \<^verbatim>\<open>Probe\<close>, a structure without
  fields, under the NodeId with identifier 5; its conversions are never used.
\<close>

definition probe_id :: pyval where
  "probe_id = PNodeId (PInt 5) (PInt 0) TwoByte PNone PNone"

definition probe_class :: klass where
  "probe_class = StructClass ''Probe'' [] None []"

definition ua_probe :: ua where
  "ua_probe =
     \<lparr>extension_object_classes = (\<lambda>t. if t = probe_id then Some probe_class else None),
      extension_object_ids = (\<lambda>c. if c = ''Probe'' then Some probe_id else None),
      classes = (\<lambda>c. if c = ''Probe'' then Some probe_class else None),
      datetime_to_win_epoch = (\<lambda>dt. Inl TypeError),
      win_epoch_to_datetime = (\<lambda>t. Inl OverflowError),
      float_of_int = (\<lambda>i. Inl OverflowError),
      single_of_float = (\<lambda>w. Inl OverflowError),
      float_of_single = (\<lambda>w. 0)\<rparr>"

subsection \<open>Optional fields\<close>

text \<open>
  An optional field is present when the object has the attribute and it is not \<^verbatim>\<open>None\<close>;
  \<open>containers\<close> are the bitmask fields the switches of a class name.
\<close>

definition present :: "(string \<times> pyval) list \<Rightarrow> string \<Rightarrow> bool" where
  "present attrs n = (\<exists>member. map_of attrs n = Some member \<and> member \<noteq> PNone)"

definition containers :: "(string \<times> string \<times> nat) list option \<Rightarrow> string set" where
  "containers ua_switches =
     (\<lambda>(name, container_name, idx). container_name) `
       set (case ua_switches of None \<Rightarrow> [] | Some switches \<Rightarrow> switches)"

text \<open>
  An opaque ExtensionObject whose body is absent while bit 0 of its encoding byte is set,
  and the same object with the bit clear.
\<close>

definition stale_object :: "int \<Rightarrow> pyval" where
  "stale_object enc =
     PObject ''ExtensionObject''
       [(''TypeId'', ''NodeId''), (''Encoding'', ''Byte''), (''Body'', ''ByteString'')]
       (Some [(''Body'', ''Encoding'', 0)])
       [(''TypeId'', NodeId_new), (''Encoding'', PInt enc), (''Body'', PNone)]"

subsection \<open>Well-formed variants\<close>




definition roundtrips :: "ua \<Rightarrow> nat \<Rightarrow> VariantType \<Rightarrow> pyval \<Rightarrow> bool" where
  "roundtrips ua depth vtype x =
     (\<exists>b. pack_uatype ua vtype x = Inr b \<and>
          (\<forall>rest. unpack_uatype ua depth vtype (Buffer (b @ rest)) = Inr (x, Buffer rest)))"




section \<open>Properties\<close>

subsection \<open>Integers and arrays of primitives\<close>


lemma length_le_bytes [simp]: "length (le_bytes n v) = n"
  by (induction n arbitrary: v) auto

lemma le_value_le_bytes: "le_value (le_bytes n v) = v mod 256 ^ n"
proof (induction n arbitrary: v)
  case 0 show ?case by simp
next
  case (Suc n)
  have "unat (of_nat (v mod 256) :: byte) = v mod 256"
    by (simp add: unat_of_nat)
  then show ?case using Suc
    by (simp add: mod_mult2_eq)
qed

lemma le_bytes_numeral:
  "le_bytes (numeral k) v = of_nat (v mod 256) # le_bytes (pred_numeral k) (v div 256)"
proof -
  have "numeral k = Suc (pred_numeral k)" by (rule numeral_eq_Suc)
  then show ?thesis by (metis le_bytes.simps(2))
qed

lemma pow256: "(256::nat) ^ n = 2 ^ (8 * n)"
  by (simp add: power_mult)

lemma calcsize_pos: "0 < calcsize c"
  by (cases c) auto

lemma unpack_pack_int:
  assumes "pack_int c x = Inr b"
  shows "unpack_int c b = x \<and> length b = calcsize c"
proof (cases "signed c")
  case True
  let ?n = "calcsize c"
  from assms True have r: "- (2 ^ (8 * ?n - 1)) \<le> x" "x < 2 ^ (8 * ?n - 1)"
    and b: "b = le_bytes ?n (nat (x mod 2 ^ (8 * ?n)))"
    by (auto simp: pack_int_def Let_def split: if_splits)
  have p: "(2::int) ^ (8 * ?n) = 2 * 2 ^ (8 * ?n - 1)"
    using calcsize_pos [of c] by (cases "8 * ?n") auto
  have lv: "int (le_value b) = x mod 2 ^ (8 * ?n)"
    unfolding b le_value_le_bytes pow256
    by (simp add: nat_mod_distrib nat_power_eq zmod_int)
  show ?thesis
  proof (cases "0 \<le> x")
    case True
    with r p have "x mod 2 ^ (8 * ?n) = x" by (intro mod_pos_pos_trivial) auto
    with lv r True \<open>signed c\<close> show ?thesis by (simp add: unpack_int_def Let_def b)
  next
    case False
    with r p have "(x + 2 ^ (8 * ?n)) mod 2 ^ (8 * ?n) = x + 2 ^ (8 * ?n)"
      by (intro mod_pos_pos_trivial) auto
    then have "x mod 2 ^ (8 * ?n) = x + 2 ^ (8 * ?n)"
      by simp
    with lv r False p \<open>signed c\<close> show ?thesis by (simp add: unpack_int_def Let_def b)
  qed
next
  case False
  let ?n = "calcsize c"
  from assms False have r: "0 \<le> x" "x < 2 ^ (8 * ?n)"
    and b: "b = le_bytes ?n (nat x)"
    by (auto simp: pack_int_def Let_def split: if_splits)
  have "int (le_value b) = x"
    unfolding b le_value_le_bytes pow256 using r
    by (simp add: zmod_int)
  with False show ?thesis by (simp add: unpack_int_def Let_def b)
qed


lemma bind_Inr [simp]: "bind (Inr x) f = f x"
  by (simp add: bind_def)

lemma bind_Inl [simp]: "bind (Inl e) f = Inl e"
  by (simp add: bind_def)

lemma read_append [simp]:
  "n = int (length b) \<Longrightarrow> read (Buffer (b @ rest)) n = Inr (b, Buffer rest)"
  by (simp add: read_def len_Buffer_def)

lemma pack_int_in_range: "in_range c x \<Longrightarrow> \<exists>b. pack_int c x = Inr b"
  by (auto simp: pack_int_def Let_def split: if_splits)

lemma unpack_integer_pack:
  assumes "pack_int c x = Inr b"
  shows "unpack_integer c (Buffer (b @ rest)) = Inr (x, Buffer rest)"
  using unpack_pack_int [OF assms] by (simp add: unpack_integer_def)

lemma le_value_word: "of_nat (le_value (le_bytes 8 (unat w))) = (w :: 64 word)"
proof -
  have "unat w < 2 ^ 64" using unsigned_less [of w] by simp
  then have "unat w mod 256 ^ 8 = unat w" by simp
  then show ?thesis by (simp only: le_value_le_bytes) simp
qed

lemma le_value_word32: "of_nat (le_value (le_bytes 4 (unat w))) = (w :: 32 word)"
proof -
  have "unat w < 2 ^ 32" using unsigned_less [of w] by simp
  then have "unat w mod 256 ^ 4 = unat w" by simp
  then show ?thesis by (simp only: le_value_le_bytes) simp
qed

lemma le_value_bool: "le_value [if b then 1 else 0] \<noteq> 0 \<longleftrightarrow> b"
  by simp

lemma scalar_roundtrip:
  assumes "is_value_of ua c x"
  shows "\<exists>b. pack ua (Primitive1 c) x = Inr b \<and>
    (\<forall>rest. unpack ua (Primitive1 c) (Buffer (b @ rest)) = Inr (x, Buffer rest))"
proof (cases "c = Fbool \<or> c = Fd \<or> c = Ff")
  case True
  then consider "c = Fbool" | "c = Fd" | "c = Ff" by blast
  then show ?thesis
  proof cases
    case 1
    with assms obtain b where "x = PBool b" by (auto split: pyval.splits)
    with 1 show ?thesis by (simp add: Primitive1_unpack_def read_def len_Buffer_def)
  next
    case 2
    with assms obtain w where "x = PFloat w" by (auto split: pyval.splits)
    with 2 show ?thesis
      by (simp add: Primitive1_unpack_def le_value_word del: le_bytes.simps le_value.simps)
  next
    case 3
    with assms obtain w s where "x = PFloat w" "single_of_float ua w = Inr s" "float_of_single ua s = w"
      by (auto split: pyval.splits sum.splits)
    with 3 show ?thesis
      by (simp add: Primitive1_unpack_def le_value_word32 del: le_bytes.simps le_value.simps)
  qed
next
  case False
  with assms obtain i where x: "x = PInt i" and r: "in_range c i"
    by (cases c) (auto split: pyval.splits)
  from pack_int_in_range [OF r] obtain b where b: "pack_int c i = Inr b" by blast
  from False x b have "pack ua (Primitive1 c) x = Inr b" by (cases c) auto
  moreover have "unpack ua (Primitive1 c) (Buffer (b @ rest)) = Inr (x, Buffer rest)" for rest
    using unpack_pack_int [OF b] False x by (cases c) (auto simp: Primitive1_unpack_def)
  ultimately show ?thesis by blast
qed

lemma unpack_each_pack_each:
  assumes "\<forall>x\<in>set xs. \<exists>b. pack ua p x = Inr b \<and>
     (\<forall>rest. unpack ua p (Buffer (b @ rest)) = Inr (x, Buffer rest))"
  shows "\<exists>b. pack_each ua p xs = Inr b \<and>
     (\<forall>rest. unpack_each ua p (length xs) (Buffer (b @ rest)) = Inr (xs, Buffer rest))"
  using assms
proof (induction xs)
  case Nil
  show ?case by simp
next
  case (Cons x xs)
  then obtain b bs where b: "pack ua p x = Inr b"
      "\<And>rest. unpack ua p (Buffer (b @ rest)) = Inr (x, Buffer rest)"
    and bs: "pack_each ua p xs = Inr bs"
      "\<And>rest. unpack_each ua p (length xs) (Buffer (bs @ rest)) = Inr (xs, Buffer rest)"
    by auto
  then show ?case by simp
qed

lemma length_prefix:
  assumes "n < 2 ^ 31"
  shows "\<exists>l. struct_pack1 ua Fi (PInt (int n)) = Inr l \<and> pack_int Fi (int n) = Inr l"
  using assms by (simp add: pack_int_def)

lemma array_roundtrip:
  assumes "\<forall>x\<in>set xs. \<exists>b. pack ua p x = Inr b \<and>
     (\<forall>rest. unpack ua p (Buffer (b @ rest)) = Inr (x, Buffer rest))"
    and "length xs < 2 ^ 31"
  shows "\<exists>b. pack_array ua p (PList xs) = Inr b \<and>
     (\<forall>rest. unpack_array ua p (Buffer (b @ rest)) = Inr (PList xs, Buffer rest))"
proof -
  from unpack_each_pack_each [OF assms(1)] obtain bs where bs: "pack_each ua p xs = Inr bs"
      "\<And>rest. unpack_each ua p (length xs) (Buffer (bs @ rest)) = Inr (xs, Buffer rest)"
    by blast
  from length_prefix [OF assms(2)] obtain l where l: "struct_pack1 ua Fi (PInt (int (length xs))) = Inr l"
     "pack_int Fi (int (length xs)) = Inr l" by blast
  have "pack_array ua p (PList xs) = Inr (l @ bs)"
    using bs(1) l(1) by (simp add: pack_array_def)
  moreover have "unpack_array ua p (Buffer ((l @ bs) @ rest)) = Inr (PList xs, Buffer rest)" for rest
    using unpack_integer_pack [OF l(2), of "bs @ rest"] bs(2) [of rest]
    by (cases "xs = []") (simp_all add: unpack_array_def)
  ultimately show ?thesis by blast
qed

lemma absent_roundtrip:
  "pack_array ua p PNone = Inr [0xff, 0xff, 0xff, 0xff] \<and>
   unpack_array ua p (Buffer ([0xff, 0xff, 0xff, 0xff] @ rest)) = Inr (PNone, Buffer rest)"
proof -
  have "pack_int Fi (- 1) = Inr [0xff, 0xff, 0xff, 0xff]"
    by (simp add: pack_int_def le_bytes_numeral)
  from unpack_integer_pack [OF this, of rest] show ?thesis
    by (simp add: pack_array_def unpack_array_def)
qed

text \<open>
  C4: for every fixed-width scalar type and every array \<open>L\<close> of it (\<^verbatim>\<open>None\<close>, the empty
  list or a list of its values), \<^verbatim>\<open>pack_array\<close> returns some bytes \<open>b\<close>, and \<^verbatim>\<open>unpack_array\<close>
  on a buffer that starts with \<open>b\<close> returns \<open>L\<close> and leaves the buffer just behind \<open>b\<close>.
  \<^verbatim>\<open>None\<close> is the prefix \<open>-1\<close> (\<^verbatim>\<open>FF FF FF FF\<close>), the empty list the prefix \<open>0\<close>.
\<close>

theorem unpack_array_pack_array:
  assumes "is_array_of ua c L"
  shows "\<exists>b. pack_array ua (Primitive1 c) L = Inr b \<and>
     (\<forall>rest. unpack_array ua (Primitive1 c) (Buffer (b @ rest)) = Inr (L, Buffer rest)) \<and>
     (L = PNone \<longrightarrow> b = [0xff, 0xff, 0xff, 0xff]) \<and> (L = PList [] \<longrightarrow> b = [0, 0, 0, 0])"
proof (cases L)
  case PNone
  then show ?thesis using absent_roundtrip [of ua "Primitive1 c"] by simp
next
  case (PList xs)
  with assms have "\<forall>x\<in>set xs. is_value_of ua c x" "length xs < 2 ^ 31"
    by (simp_all add: list_all_iff)
  then have "\<forall>x\<in>set xs. \<exists>b. pack ua (Primitive1 c) x = Inr b \<and>
     (\<forall>rest. unpack ua (Primitive1 c) (Buffer (b @ rest)) = Inr (x, Buffer rest))"
    using scalar_roundtrip by blast
  from array_roundtrip [OF this \<open>length xs < 2 ^ 31\<close>] obtain b where
    b: "pack_array ua (Primitive1 c) (PList xs) = Inr b"
     "\<And>rest. unpack_array ua (Primitive1 c) (Buffer (b @ rest)) = Inr (PList xs, Buffer rest)"
    by blast
  have "xs = [] \<Longrightarrow> b = [0, 0, 0, 0]"
    using b(1) by (auto simp add: pack_array_def pack_int_def le_bytes_numeral)
  with b PList show ?thesis by simp
qed (use assms in simp_all)

theorem unpack_array_pack_array_witness:
  "\<forall>ua. is_array_of ua Fi (PList [PInt 1, PInt (- 2), PInt 3]) \<and>
     pack_array ua (Primitive1 Fi) (PList [PInt 1, PInt (- 2), PInt 3])
       = Inr [3, 0, 0, 0, 1, 0, 0, 0, 0xfe, 0xff, 0xff, 0xff, 3, 0, 0, 0] \<and>
     unpack_array ua (Primitive1 Fi)
       (Buffer [3, 0, 0, 0, 1, 0, 0, 0, 0xfe, 0xff, 0xff, 0xff, 3, 0, 0, 0])
       = Inr (PList [PInt 1, PInt (- 2), PInt 3], Buffer [])"
proof (intro allI conjI)
  fix ua
  let ?L = "PList [PInt 1, PInt (- 2), PInt 3]"
  let ?b = "[3, 0, 0, 0, 1, 0, 0, 0, 0xfe, 0xff, 0xff, 0xff, 3, 0, 0, 0] :: bytes"
  show h: "is_array_of ua Fi ?L" by simp
  show p: "pack_array ua (Primitive1 Fi) ?L = Inr ?b"
    by (simp add: pack_array_def pack_int_def le_bytes_numeral)
  from unpack_array_pack_array [OF h] obtain b where
    "pack_array ua (Primitive1 Fi) ?L = Inr b"
    "\<forall>rest. unpack_array ua (Primitive1 Fi) (Buffer (b @ rest)) = Inr (?L, Buffer rest)"
    by blast
  with p have "unpack_array ua (Primitive1 Fi) (Buffer (?b @ [])) = Inr (?L, Buffer [])"
    by simp
  then show "unpack_array ua (Primitive1 Fi) (Buffer ?b) = Inr (?L, Buffer [])"
    by simp
qed

subsection \<open>NodeId\<close>

lemma bind_eq_Inr: "bind m f = Inr y \<longleftrightarrow> (\<exists>x. m = Inr x \<and> f x = Inr y)"
  by (cases m) (simp_all add: bind_def)

lemma length_struct_pack1:
  assumes "struct_pack1 ua c v = Inr b"
  shows "length b = calcsize c"
proof (cases "c = Fbool \<or> c = Fd \<or> c = Ff")
  case True
  with assms show ?thesis
    by (auto simp: bind_eq_Inr split: pyval.splits option.splits)
next
  case False
  with assms obtain i where "pack_int c i = Inr b"
    by (cases c) (auto split: option.splits)
  from unpack_pack_int [OF this] show ?thesis by simp
qed

lemma pack_int_FB_small:
  "0 \<le> k \<Longrightarrow> k < 256 \<Longrightarrow> pack_int FB k = Inr [of_int k]"
  by (simp add: pack_int_def le_bytes_numeral nat_mod_distrib)

lemma length_struct_pack:
  "struct_pack ua cs vs = Inr b \<Longrightarrow> length b = sum_list (map calcsize cs)"
proof (induction ua cs vs arbitrary: b rule: struct_pack.induct)
  case (2 ua c cs v vs)
  then show ?case by (auto simp: bind_eq_Inr dest: length_struct_pack1)
qed simp_all

lemma nodeid_to_binary_leading_byte:
  assumes "nodeid_to_binary ua (PNodeId ident ns t uri si) = Inr b"
  shows "\<exists>bs. b = of_nat (value_of_NodeIdType t) # bs"
  using assms
  by (cases t) (auto simp: bind_eq_Inr pack_int_FB_small)

text \<open>
  C6, as the code has it: \<^verbatim>\<open>nodeid_to_binary\<close> emits the form named by the \<^verbatim>\<open>NodeIdType\<close>
  attribute of the NodeId, whatever its namespace index and identifier: when it returns
  bytes, the leading byte is the value of that type, and the two-byte, four-byte and
  numeric forms have 2, 4 and 7 bytes.
\<close>

theorem nodeid_to_binary_form:
  assumes "nodeid_to_binary ua (PNodeId ident ns t uri si) = Inr b"
  shows "b \<noteq> [] \<and> unat (hd b) = value_of_NodeIdType t \<and>
    (t = TwoByte \<longrightarrow> length b = 2) \<and> (t = FourByte \<longrightarrow> length b = 4) \<and>
    (t = Numeric \<longrightarrow> length b = 7)"
proof -
  from nodeid_to_binary_leading_byte [OF assms] obtain bs
    where b: "b = of_nat (value_of_NodeIdType t) # bs" by blast
  have "unat (of_nat (value_of_NodeIdType t) :: byte) = value_of_NodeIdType t"
    by (cases t) simp_all
  moreover have "length b = 2" if "t = TwoByte"
    using assms that by (auto simp del: struct_pack.simps dest: length_struct_pack)
  moreover have "length b = 4" if "t = FourByte"
    using assms that by (auto simp del: struct_pack.simps dest: length_struct_pack)
  moreover have "length b = 7" if "t = Numeric"
    using assms that by (auto simp del: struct_pack.simps dest: length_struct_pack)
  ultimately show ?thesis using b by simp
qed

lemma numeric_72:
  "nodeid_to_binary ua (PNodeId (PInt 72) (PInt 0) Numeric PNone PNone) = Inr [2, 0, 0, 72, 0, 0, 0]"
  by (simp add: pack_int_def le_bytes_numeral)

lemma twobyte_72:
  "nodeid_to_binary ua (PNodeId (PInt 72) (PInt 0) TwoByte uri si) = Inr [0, 72]"
  by (simp add: pack_int_def le_bytes_numeral)

lemma smallest_72: "smallest_form 0 72 = Some TwoByte"
  by (simp add: smallest_form_def admits_def)

theorem nodeid_to_binary_form_witness:
  "\<forall>ua. nodeid_to_binary ua (PNodeId (PInt 72) (PInt 0) Numeric PNone PNone) = Inr [2, 0, 0, 72, 0, 0, 0] \<and>
     unat (hd [2, 0, 0, 72, 0, 0, 0 :: byte]) = value_of_NodeIdType Numeric \<and>
     length [2, 0, 0, 72, 0, 0, 0 :: byte] = 7"
proof (intro allI)
  fix ua
  from nodeid_to_binary_form [OF numeric_72 [of ua]] numeric_72 [of ua]
  show "nodeid_to_binary ua (PNodeId (PInt 72) (PInt 0) Numeric PNone PNone) = Inr [2, 0, 0, 72, 0, 0, 0] \<and>
     unat (hd [2, 0, 0, 72, 0, 0, 0 :: byte]) = value_of_NodeIdType Numeric \<and>
     length [2, 0, 0, 72, 0, 0, 0 :: byte] = 7"
    by blast
qed

text \<open>
  C6, as the spec states it, fails: the NodeId with namespace 0, identifier 72 and type
  \<^verbatim>\<open>Numeric\<close> is encoded in the numeric form (leading byte 2), although the two-byte form
  admits it.
\<close>

theorem nodeid_to_binary_not_smallest:
  "\<not> (\<forall>ua ident ns t b bs t'.
        nodeid_to_binary ua (PNodeId (PInt ident) (PInt ns) t PNone PNone) = Inr (b # bs) \<longrightarrow>
        smallest_form ns ident = Some t' \<longrightarrow> unat b = value_of_NodeIdType t')"
proof
  assume a: "\<forall>ua ident ns t b bs t'.
        nodeid_to_binary ua (PNodeId (PInt ident) (PInt ns) t PNone PNone) = Inr (b # bs) \<longrightarrow>
        smallest_form ns ident = Some t' \<longrightarrow> unat b = value_of_NodeIdType t'"
  have "unat (2 :: byte) = value_of_NodeIdType TwoByte"
    using a numeric_72 smallest_72 by blast
  then show False by simp
qed

text \<open>
  C3: the spec asks for bit 7 and the namespace URI, bit 6 and the server index. The
  encoder does not look at either attribute: its output is that of the same NodeId
  without them, so the NodeId with identifier 72, the URI \<^verbatim>\<open>uri\<close> and the server index 5
  is encoded as \<^verbatim>\<open>00 48\<close>, and decoding that gives a NodeId with neither.
\<close>

theorem nodeid_to_binary_ignores_uri_and_server_index:
  "nodeid_to_binary ua (PNodeId ident ns t uri si) = nodeid_to_binary ua (PNodeId ident ns t PNone PNone) \<and>
   nodeid_to_binary ua (PNodeId (PInt 72) (PInt 0) TwoByte (PStr [117, 114, 105]) (PInt 5)) = Inr [0, 72] \<and>
   nodeid_from_binary ua (Buffer [0, 72]) = Inr (PNodeId (PInt 72) (PInt 0) TwoByte PNone PNone, Buffer [])"
proof -
  have "nodeid_from_binary ua (Buffer [0, 72]) = Inr (PNodeId (PInt 72) (PInt 0) TwoByte PNone PNone, Buffer [])"
    by (simp add: nodeid_from_binary_def read_def len_Buffer_def NodeIdType_of_def test_bit_def)
  then show ?thesis using twobyte_72 by simp
qed

subsection \<open>Reshaping\<close>


lemma len_PList [simp]: "len (PList xs) = Inr (length xs)"
  by (simp add: len_def)










subsection \<open>Extension objects\<close>

lemma read_small:
  "read (Buffer (x # xs)) 1 = Inr ([x], Buffer xs)"
  by (simp add: read_def len_Buffer_def)

lemma extensionobject_to_binary_None:
  "extensionobject_to_binary ua PNone = Inr [0, 0, 0]"
  by (simp add: NodeId_new_def pack_int_def le_bytes_numeral)

text \<open>
  C8: \<^verbatim>\<open>extensionobject_to_binary(None)\<close> is the three bytes \<^verbatim>\<open>00 00 00\<close>. On a buffer that
  holds a NodeId with identifier 0, an encoding byte and, when bit 0 of that byte is set,
  a length and the body it announces, \<^verbatim>\<open>extensionobject_from_binary\<close> returns \<^verbatim>\<open>None\<close>,
  whatever the encoding byte is.
\<close>

theorem extensionobject_null:
  assumes "nodeid_from_binary ua data = Inr (PNodeId (PInt 0) ns t uri si, data1)"
    and "read data1 1 = Inr (b, data2)"
    and "int (le_value b) AND 1 \<noteq> 0 \<longrightarrow>
           (\<exists>n data3. unpack_integer Fi data2 = Inr (n, data3) \<and> (1 \<le> n \<longrightarrow> n \<le> len_Buffer data3))"
  shows "extensionobject_to_binary ua PNone = Inr [0, 0, 0] \<and>
         (\<exists>rest. extensionobject_from_binary ua (Suc depth) data = Inr (PNone, rest))"
proof (cases "int (le_value b) AND 1 \<noteq> 0")
  case False
  with assms(1,2) show ?thesis
    by (simp add: extensionobject_to_binary_None del: extensionobject_to_binary.simps)
next
  case True
  with assms(3) obtain n data3 where n: "unpack_integer Fi data2 = Inr (n, data3)"
    "1 \<le> n \<longrightarrow> n \<le> len_Buffer data3" by blast
  show ?thesis
  proof (cases "n < 1")
    case less: True
    with assms(1,2) True n show ?thesis
      by (simp add: extensionobject_to_binary_None del: extensionobject_to_binary.simps)
  next
    case False
    with n have "skip data3 n = Inr (Buffer (drop (nat n) (remaining data3)))"
      by (simp add: skip_def)
    with assms(1,2) True n False show ?thesis
      by (simp add: extensionobject_to_binary_None Let_def del: extensionobject_to_binary.simps)
  qed
qed


lemma nodeid_from_binary_twobyte:
  "nodeid_from_binary ua (Buffer (0 # i # rest)) =
     Inr (PNodeId (PInt (int (unat i))) (PInt 0) TwoByte PNone PNone, Buffer rest)"
  by (simp add: nodeid_from_binary_def read_small NodeIdType_of_def test_bit_def)

lemma unpack_integer_Fi_4:
  "unpack_integer Fi (Buffer (a # b # c # d # rest)) = Inr (unpack_int Fi [a, b, c, d], Buffer rest)"
  by (simp add: unpack_integer_def read_def len_Buffer_def)

lemma unpack_int_2: "unpack_int Fi [2, 0, 0, 0] = 2"
  by (simp add: unpack_int_def)

lemma unpack_int_minus_1: "unpack_int Fi [0xff, 0xff, 0xff, 0xff] = - 1"
  by (simp add: unpack_int_def)

theorem extensionobject_null_witness:
  "\<forall>ua. extensionobject_to_binary ua PNone = Inr [0, 0, 0] \<and>
     (\<exists>rest. extensionobject_from_binary ua (Suc 0) (Buffer [0, 0, 1, 2, 0, 0, 0, 9, 9])
        = Inr (PNone, rest))"
proof
  fix ua
  have h1: "nodeid_from_binary ua (Buffer [0, 0, 1, 2, 0, 0, 0, 9, 9])
      = Inr (PNodeId (PInt 0) (PInt 0) TwoByte PNone PNone, Buffer [1, 2, 0, 0, 0, 9, 9])"
    using nodeid_from_binary_twobyte [of ua 0] by simp
  have h2: "read (Buffer [1, 2, 0, 0, 0, 9, 9]) 1 = Inr ([1], Buffer [2, 0, 0, 0, 9, 9])"
    by (rule read_small)
  have h3: "int (le_value [1]) AND 1 \<noteq> 0 \<longrightarrow>
      (\<exists>n data3. unpack_integer Fi (Buffer [2, 0, 0, 0, 9, 9]) = Inr (n, data3) \<and>
         (1 \<le> n \<longrightarrow> n \<le> len_Buffer data3))"
    by (simp add: unpack_integer_Fi_4 unpack_int_2 len_Buffer_def)
  from extensionobject_null [OF h1 h2 h3]
  show "extensionobject_to_binary ua PNone = Inr [0, 0, 0] \<and>
     (\<exists>rest. extensionobject_from_binary ua (Suc 0) (Buffer [0, 0, 1, 2, 0, 0, 0, 9, 9])
        = Inr (PNone, rest))" .
qed

text \<open>
  C10: when bit 0 of the encoding byte is set and the declared length is below 1, the
  body is an empty buffer, not an absent one: for a registered type the result is that of
  decoding the registered structure from no bytes, with the parent buffer left just
  behind the length, and the missing-body error is not raised by this function.
\<close>

theorem extensionobject_short_body:
  assumes "nodeid_from_binary ua data = Inr (PNodeId ident ns t uri si, data1)"
    and "ident \<noteq> PInt 0"
    and "extension_object_classes ua (PNodeId ident ns t uri si) = Some klass"
    and "read data1 1 = Inr (b, data2)"
    and "int (le_value b) AND 1 \<noteq> 0"
    and "unpack_integer Fi data2 = Inr (n, data3)"
    and "n < 1"
  shows "extensionobject_from_binary ua (Suc depth) data =
           bind (from_binary ua depth (Class klass) (Buffer [])) (\<lambda>(obj, body). Inr (obj, data3))"
  using assms by simp

theorem extensionobject_short_body_witness:
  "extensionobject_from_binary ua_probe (Suc (Suc (Suc 0))) (Buffer [0, 5, 1, 0xff, 0xff, 0xff, 0xff, 7]) =
     bind (from_binary ua_probe (Suc (Suc 0)) (Class probe_class) (Buffer []))
       (\<lambda>(obj, body). Inr (obj, Buffer [7])) \<and>
   from_binary ua_probe (Suc (Suc 0)) (Class probe_class) (Buffer []) =
     Inr (PObject ''Probe'' [] None [], Buffer [])"
proof
  have h1: "nodeid_from_binary ua_probe (Buffer [0, 5, 1, 0xff, 0xff, 0xff, 0xff, 7])
      = Inr (PNodeId (PInt 5) (PInt 0) TwoByte PNone PNone, Buffer [1, 0xff, 0xff, 0xff, 0xff, 7])"
    using nodeid_from_binary_twobyte [of ua_probe 5] by simp
  have h2: "PInt 5 \<noteq> PInt 0" by simp
  have h3: "extension_object_classes ua_probe (PNodeId (PInt 5) (PInt 0) TwoByte PNone PNone)
      = Some probe_class"
    by (simp add: ua_probe_def probe_id_def)
  have h4: "read (Buffer [1, 0xff, 0xff, 0xff, 0xff, 7]) 1 = Inr ([1], Buffer [0xff, 0xff, 0xff, 0xff, 7])"
    by (rule read_small)
  have h5: "int (le_value [1]) AND 1 \<noteq> 0" by simp
  have h6: "unpack_integer Fi (Buffer [0xff, 0xff, 0xff, 0xff, 7]) = Inr (- 1, Buffer [7])"
    by (simp only: unpack_integer_Fi_4 unpack_int_minus_1)
  have h7: "(- 1 :: int) < 1" by simp
  from extensionobject_short_body [OF h1 h2 h3 h4 h5 h6 h7]
  show "extensionobject_from_binary ua_probe (Suc (Suc (Suc 0))) (Buffer [0, 5, 1, 0xff, 0xff, 0xff, 0xff, 7]) =
     bind (from_binary ua_probe (Suc (Suc 0)) (Class probe_class) (Buffer []))
       (\<lambda>(obj, body). Inr (obj, Buffer [7]))" .
  show "from_binary ua_probe (Suc (Suc 0)) (Class probe_class) (Buffer []) =
     Inr (PObject ''Probe'' [] None [], Buffer [])"
    by (simp add: probe_class_def)
qed

text \<open>
  C7, as the code has it. For a registered type that is not the null NodeId: the
  decoder raises \<^verbatim>\<open>UaError\<close> when bit 0 of the encoding byte is clear; when the bit is
  set, the declared length is at least 1 and the buffer holds that many bytes, it
  decodes the registered structure from a buffer of its own holding exactly these bytes
  and leaves the parent buffer exactly behind them, wherever the inner decoder stopped.
\<close>

theorem extensionobject_registered:
  assumes "nodeid_from_binary ua data = Inr (PNodeId ident ns t uri si, data1)"
    and "ident \<noteq> PInt 0"
    and "extension_object_classes ua (PNodeId ident ns t uri si) = Some klass"
    and "read data1 1 = Inr (b, data2)"
  shows "(int (le_value b) AND 1 = 0 \<longrightarrow>
            extensionobject_from_binary ua (Suc depth) data = Inl UaError) \<and>
         (int (le_value b) AND 1 \<noteq> 0 \<longrightarrow>
            (\<forall>n data3. unpack_integer Fi data2 = Inr (n, data3) \<longrightarrow> 1 \<le> n \<longrightarrow>
               n \<le> len_Buffer data3 \<longrightarrow>
               extensionobject_from_binary ua (Suc depth) data =
                 bind (from_binary ua depth (Class klass)
                         (Buffer (take (nat n) (remaining data3))))
                   (\<lambda>(obj, body). Inr (obj, Buffer (drop (nat n) (remaining data3))))))"
proof (intro conjI impI allI)
  assume "int (le_value b) AND 1 = 0"
  with assms show "extensionobject_from_binary ua (Suc depth) data = Inl UaError" by simp
next
  fix n data3
  assume a: "int (le_value b) AND 1 \<noteq> 0" "unpack_integer Fi data2 = Inr (n, data3)"
    "1 \<le> n" "n \<le> len_Buffer data3"
  then have "skip data3 n = Inr (Buffer (drop (nat n) (remaining data3)))"
    by (simp add: skip_def)
  with assms a show "extensionobject_from_binary ua (Suc depth) data =
      bind (from_binary ua depth (Class klass) (Buffer (take (nat n) (remaining data3))))
        (\<lambda>(obj, body). Inr (obj, Buffer (drop (nat n) (remaining data3))))"
    by (simp add: Let_def copy_def)
qed

lemma probe_absent_body:
  "extensionobject_from_binary ua_probe (Suc (Suc (Suc 0))) (Buffer [0, 5, 1, 0xff, 0xff, 0xff, 0xff]) =
     Inr (PObject ''Probe'' [] None [], Buffer [])"
proof -
  have "unpack_integer Fi (Buffer [0xff, 0xff, 0xff, 0xff]) = Inr (- 1, Buffer [])"
    by (simp only: unpack_integer_Fi_4 unpack_int_minus_1)
  then show ?thesis
    using nodeid_from_binary_twobyte [of ua_probe 5 "[1, 0xff, 0xff, 0xff, 0xff]"]
    by (simp add: read_small ua_probe_def probe_id_def probe_class_def)
qed

text \<open>
  C7, as the spec states it, fails where the body is the absent marker: for the
  registered class \<^verbatim>\<open>Probe\<close>, which has no fields, the input \<^verbatim>\<open>00 05 01 FF FF FF FF\<close> raises
  nothing and yields an object decoded from an empty buffer.
\<close>

theorem extensionobject_absent_body_decoded:
  "\<not> (\<forall>ua depth data ident ns t uri si data1 klass e rest.
        nodeid_from_binary ua data = Inr (PNodeId ident ns t uri si, data1) \<longrightarrow>
        ident \<noteq> PInt 0 \<longrightarrow>
        extension_object_classes ua (PNodeId ident ns t uri si) = Some klass \<longrightarrow>
        data1 = Buffer (e # 0xff # 0xff # 0xff # 0xff # rest) \<longrightarrow>
        int (unat e) AND 1 \<noteq> 0 \<longrightarrow>
        (\<exists>err. extensionobject_from_binary ua (Suc depth) data = Inl err))"
proof
  assume a: "\<forall>ua depth data ident ns t uri si data1 klass e rest.
        nodeid_from_binary ua data = Inr (PNodeId ident ns t uri si, data1) \<longrightarrow>
        ident \<noteq> PInt 0 \<longrightarrow>
        extension_object_classes ua (PNodeId ident ns t uri si) = Some klass \<longrightarrow>
        data1 = Buffer (e # 0xff # 0xff # 0xff # 0xff # rest) \<longrightarrow>
        int (unat e) AND 1 \<noteq> 0 \<longrightarrow>
        (\<exists>err. extensionobject_from_binary ua (Suc depth) data = Inl err)"
  have h1: "nodeid_from_binary ua_probe (Buffer [0, 5, 1, 0xff, 0xff, 0xff, 0xff])
      = Inr (PNodeId (PInt 5) (PInt 0) TwoByte PNone PNone, Buffer [1, 0xff, 0xff, 0xff, 0xff])"
    using nodeid_from_binary_twobyte [of ua_probe 5] by simp
  have h2: "extension_object_classes ua_probe (PNodeId (PInt 5) (PInt 0) TwoByte PNone PNone)
      = Some probe_class"
    by (simp add: ua_probe_def probe_id_def)
  have h3: "Buffer [1, 0xff, 0xff, 0xff, 0xff] = Buffer (1 # 0xff # 0xff # 0xff # 0xff # [])"
    "PInt 5 \<noteq> PInt 0" "int (unat (1 :: byte)) AND 1 \<noteq> 0"
    by simp_all
  from a [rule_format, OF h1 h3(2) h2 h3(1) h3(3)]
  have "\<exists>err. extensionobject_from_binary ua_probe (Suc (Suc (Suc 0)))
          (Buffer [0, 5, 1, 0xff, 0xff, 0xff, 0xff]) = Inl err"
    by blast
  then show False unfolding probe_absent_body by simp
qed

theorem extensionobject_registered_witness:
  "extensionobject_from_binary ua_probe (Suc (Suc (Suc 0))) (Buffer [0, 5, 0, 7]) = Inl UaError \<and>
   extensionobject_from_binary ua_probe (Suc (Suc (Suc 0))) (Buffer [0, 5, 1, 2, 0, 0, 0, 8, 9, 7]) =
     bind (from_binary ua_probe (Suc (Suc 0)) (Class probe_class) (Buffer [8, 9]))
       (\<lambda>(obj, body). Inr (obj, Buffer [7]))"
proof -
  have c: "extension_object_classes ua_probe (PNodeId (PInt 5) (PInt 0) TwoByte PNone PNone)
      = Some probe_class"
    by (simp add: ua_probe_def probe_id_def)
  have i: "PInt 5 \<noteq> PInt 0" by simp
  have a1: "nodeid_from_binary ua_probe (Buffer [0, 5, 0, 7])
      = Inr (PNodeId (PInt 5) (PInt 0) TwoByte PNone PNone, Buffer [0, 7])"
    using nodeid_from_binary_twobyte [of ua_probe 5] by simp
  have a2: "read (Buffer [0, 7]) 1 = Inr ([0], Buffer [7])" by (rule read_small)
  have b1: "nodeid_from_binary ua_probe (Buffer [0, 5, 1, 2, 0, 0, 0, 8, 9, 7])
      = Inr (PNodeId (PInt 5) (PInt 0) TwoByte PNone PNone, Buffer [1, 2, 0, 0, 0, 8, 9, 7])"
    using nodeid_from_binary_twobyte [of ua_probe 5] by simp
  have b2: "read (Buffer [1, 2, 0, 0, 0, 8, 9, 7]) 1 = Inr ([1], Buffer [2, 0, 0, 0, 8, 9, 7])"
    by (rule read_small)
  have b3: "unpack_integer Fi (Buffer [2, 0, 0, 0, 8, 9, 7]) = Inr (2, Buffer [8, 9, 7])"
    by (simp only: unpack_integer_Fi_4 unpack_int_2)
  from extensionobject_registered [OF a1 i c a2, of "Suc (Suc 0)"]
  have "extensionobject_from_binary ua_probe (Suc (Suc (Suc 0))) (Buffer [0, 5, 0, 7]) = Inl UaError"
    by (simp del: extensionobject_from_binary.simps from_binary.simps)
  moreover from extensionobject_registered [OF b1 i c b2, of "Suc (Suc 0)"] b3
  have "extensionobject_from_binary ua_probe (Suc (Suc (Suc 0))) (Buffer [0, 5, 1, 2, 0, 0, 0, 8, 9, 7]) =
     bind (from_binary ua_probe (Suc (Suc 0)) (Class probe_class) (Buffer [8, 9]))
       (\<lambda>(obj, body). Inr (obj, Buffer [7]))"
    by (simp add: len_Buffer_def del: extensionobject_from_binary.simps from_binary.simps)
  ultimately show ?thesis by simp
qed

subsection \<open>Switches and what the encoders assign\<close>

lemma map_of_setattr:
  "map_of (setattr attrs k v) = (map_of attrs)(k \<mapsto> v)"
  by (induction attrs) (auto simp: fun_eq_iff)

lemma keys_setattr:
  "map_of attrs k = Some v \<Longrightarrow> map fst (setattr attrs k v') = map fst attrs"
  by (induction attrs) (auto split: if_splits)

lemma present_setattr:
  assumes "map_of attrs c = Some cv" and "as_int cv = Some k"
  shows "present (setattr attrs c (PInt x)) n = present attrs n"
  using assms by (auto simp: present_def map_of_setattr)

lemma bit_mask_int: "bit (2 ^ n :: int) m \<longleftrightarrow> m = n"
  by (auto simp: bit_exp_iff)

lemma set_switches_bits:
  assumes "set_switches sw attrs = (attrs', None)"
    and "map_of attrs container = Some cv" and "as_int cv = Some i"
  shows "\<exists>cv' j. map_of attrs' container = Some cv' \<and> as_int cv' = Some j \<and>
     (\<forall>idx. bit j idx \<longleftrightarrow>
        bit i idx \<or> (\<exists>name. (name, container, idx) \<in> set sw \<and> present attrs name))"
  using assms
proof (induction sw attrs arbitrary: cv i rule: set_switches.induct)
  case (1 attrs)
  then show ?case by auto
next
  case (2 name c0 idx0 switches attrs)
  from "2.prems"(1) obtain member where m: "map_of attrs name = Some member"
    by (auto split: option.splits)
  show ?case
  proof (cases "member = PNone")
    case True
    with m "2.prems" have s: "set_switches switches attrs = (attrs', None)" by simp
    from True m have np: "\<not> present attrs name" by (simp add: present_def)
    from True have nn: "\<not> member \<noteq> PNone" by simp
    from "2.IH"(2) [OF m nn s "2.prems"(2,3)] np show ?thesis by auto
  next
    case False
    with m "2.prems"(1) obtain c0v k where c0: "map_of attrs c0 = Some c0v" "as_int c0v = Some k"
      by (auto split: option.splits)
    let ?a1 = "setattr attrs c0 (PInt (k OR push_bit idx0 1))"
    from False m c0 "2.prems"(1) have s: "set_switches switches ?a1 = (attrs', None)"
      by (simp del: setattr.simps)
    have p: "present (setattr attrs c0 (PInt x)) n = present attrs n" for n x
      by (rule present_setattr [OF c0])
    from False m have pn: "present attrs name" by (simp add: present_def)
    show ?thesis
    proof (cases "c0 = container")
      case True
      with c0 "2.prems"(2,3) have ki: "k = i" by simp
      have p': "present (setattr attrs container (PInt x)) n = present attrs n" for n x
        using p [of x n] True by simp
      have c1: "map_of ?a1 container = Some (PInt (i OR push_bit idx0 1))"
        using True ki by (simp add: map_of_setattr)
      from "2.IH"(1) [OF m False c0 s c1] obtain cv' j where
        j: "map_of attrs' container = Some cv'" "as_int cv' = Some j"
          "\<forall>idx. bit j idx \<longleftrightarrow> bit (i OR push_bit idx0 1) idx \<or>
              (\<exists>name. (name, container, idx) \<in> set switches \<and> present ?a1 name)"
        by auto
      have "bit j idx \<longleftrightarrow> bit i idx \<or>
          (\<exists>n. (n, container, idx) \<in> set ((name, c0, idx0) # switches) \<and> present attrs n)" for idx
        using j(3) True pn by (auto simp: p' bit_or_iff bit_mask_int)
      with j(1,2) show ?thesis by blast
    next
      case False
      then have c1: "map_of ?a1 container = Some cv"
        using "2.prems"(2) by (simp add: map_of_setattr)
      from "2.IH"(1) [OF m \<open>member \<noteq> PNone\<close> c0 s c1 "2.prems"(3)] obtain cv' j where
        j: "map_of attrs' container = Some cv'" "as_int cv' = Some j"
          "\<forall>idx. bit j idx \<longleftrightarrow> bit i idx \<or>
              (\<exists>name. (name, container, idx) \<in> set switches \<and> present ?a1 name)"
        by auto
      have "bit j idx \<longleftrightarrow> bit i idx \<or>
          (\<exists>n. (n, container, idx) \<in> set ((name, c0, idx0) # switches) \<and> present attrs n)" for idx
        using j(3) False by (auto simp: p)
      with j(1,2) show ?thesis by blast
    qed
  qed
qed


lemma set_switches_frame:
  "map fst (fst (set_switches sw attrs)) = map fst attrs \<and>
   (\<forall>n. n \<notin> (\<lambda>(name, c, idx). c) ` set sw \<longrightarrow>
        map_of (fst (set_switches sw attrs)) n = map_of attrs n) \<and>
   (\<forall>n v. map_of attrs n = Some v \<longrightarrow>
      (\<exists>v'. map_of (fst (set_switches sw attrs)) n = Some v' \<and>
         (v' = v \<or> (\<exists>i m. as_int v = Some i \<and> v' = PInt (i OR m)))))"
proof (induction sw attrs rule: set_switches.induct)
  case (1 attrs)
  show ?case by simp
next
  case (2 name c0 idx0 switches attrs)
  show ?case
  proof (cases "map_of attrs name")
    case None
    then show ?thesis by simp
  next
    case (Some member)
    show ?thesis
    proof (cases "member = PNone")
      case True
      then have nn: "\<not> member \<noteq> PNone" by simp
      from "2.IH"(2) [OF Some nn] Some True show ?thesis by simp
    next
      case False
      show ?thesis
      proof (cases "map_of attrs c0")
        case None
        with Some False show ?thesis by simp
      next
        case c: (Some c0v)
        show ?thesis
        proof (cases "as_int c0v")
          case None
          with Some False c show ?thesis by simp
        next
          case k: (Some k)
          let ?a1 = "setattr attrs c0 (PInt (k OR push_bit idx0 1))"
          let ?r = "fst (set_switches switches ?a1)"
          have r: "fst (set_switches ((name, c0, idx0) # switches) attrs) = ?r"
            using Some False c k by (simp del: setattr.simps)
          note ih = "2.IH"(1) [OF Some False c k]
          have a: "map fst ?r = map fst attrs"
            using ih keys_setattr [OF c] by simp
          have b: "map_of ?r n = map_of attrs n"
            if "n \<notin> (\<lambda>(name, c, idx). c) ` set ((name, c0, idx0) # switches)" for n
          proof -
            from that have "n \<noteq> c0" "n \<notin> (\<lambda>(name, c, idx). c) ` set switches" by auto
            with ih show ?thesis by (simp add: map_of_setattr)
          qed
          have d: "\<exists>v'. map_of ?r n = Some v' \<and>
              (v' = v \<or> (\<exists>i m. as_int v = Some i \<and> v' = PInt (i OR m)))"
            if v: "map_of attrs n = Some v" for n v
          proof (cases "n = c0")
            case True
            with v c have vc: "v = c0v" by simp
            have "map_of ?a1 n = Some (PInt (k OR push_bit idx0 1))"
              using True by (simp add: map_of_setattr)
            with ih obtain v' where v': "map_of ?r n = Some v'"
              "v' = PInt (k OR push_bit idx0 1) \<or>
               (\<exists>i m. as_int (PInt (k OR push_bit idx0 1)) = Some i \<and> v' = PInt (i OR m))"
              by blast
            from v'(2) have "\<exists>m. v' = PInt (k OR m)"
              by (auto simp: or.assoc)
            with v'(1) vc k show ?thesis by auto
          next
            case False
            with v have "map_of ?a1 n = Some v" by (simp add: map_of_setattr)
            with ih show ?thesis by blast
          qed
          from a b d show ?thesis unfolding r by blast
        qed
      qed
    qed
  qed
qed

lemma traverse_concat:
  "traverse f xs = Inr b \<Longrightarrow> \<exists>bs. b = concat bs \<and> list_all2 (\<lambda>x fb. f x = Inr fb) xs bs"
proof (induction xs arbitrary: b)
  case Nil
  then show ?case by simp
next
  case (Cons x xs)
  from Cons.prems obtain b1 b2 where b: "f x = Inr b1" "traverse f xs = Inr b2" "b = b1 @ b2"
    by (auto simp: bind_eq_Inr)
  from Cons.IH [OF b(2)] obtain bs where "b2 = concat bs"
    "list_all2 (\<lambda>x fb. f x = Inr fb) xs bs" by blast
  with b have "b = concat (b1 # bs) \<and> list_all2 (\<lambda>x fb. f x = Inr fb) (x # xs) (b1 # bs)"
    by simp
  then show ?case by blast
qed

text \<open>
  C2, as the code has it. When \<^verbatim>\<open>struct_to_binary\<close> returns the bytes \<open>b\<close>, its first loop has
  run through: a bitmask field that held the integer \<open>i\<close> holds an integer whose bit
  \<open>idx\<close> is set if and only if the bit was set in \<open>i\<close> or a switch \<open>(name, field, idx)\<close> has
  its optional field present, so the encoder sets the bit of a present field and never
  clears the bit of an absent one, and every attribute that is no bitmask field is as it
  was. The bytes \<open>b\<close> are the encodings of the fields of \<^verbatim>\<open>ua_types\<close>, in that order, taken
  from the attributes as the first loop left them: \<^verbatim>\<open>list_to_binary\<close> for a field of a
  \<^verbatim>\<open>ListOf\<close> type, present or not; nothing for an absent optional field of another type;
  \<^verbatim>\<open>to_binary\<close> for every other field, the bitmask fields among them.
\<close>

theorem struct_to_binary_switches:
  assumes "struct_to_binary ua (PObject c t (Some sw) attrs) = Inr b"
  shows "\<exists>attrs' bs.
     set_switches sw attrs = (attrs', None) \<and>
     (\<forall>container cv i. map_of attrs container = Some cv \<longrightarrow> as_int cv = Some i \<longrightarrow>
        (\<exists>cv' j. map_of attrs' container = Some cv' \<and> as_int cv' = Some j \<and>
           (\<forall>idx. bit j idx \<longleftrightarrow>
              bit i idx \<or> (\<exists>name. (name, container, idx) \<in> set sw \<and> present attrs name)))) \<and>
     (\<forall>n. n \<notin> containers (Some sw) \<longrightarrow> map_of attrs' n = map_of attrs n) \<and>
     b = concat bs \<and>
     list_all2 (\<lambda>(name, uatype) fb. \<exists>val. map_of attrs' name = Some val \<and>
        (if startswith uatype ''ListOf'' then list_to_binary ua (drop 6 uatype) val = Inr fb
         else if val = PNone \<and> name \<in> fst ` set sw then fb = []
         else to_binary ua uatype val = Inr fb)) t bs"
proof -
  let ?attrs' = "fst (set_switches sw attrs)"
  let ?f = "\<lambda>(name, uatype).
     bind (getattr ?attrs' name) (\<lambda>val.
       if startswith uatype ''ListOf'' then list_to_binary ua (drop 6 uatype) val
       else if (\<exists>y. Some sw = Some y) \<and> val = PNone
                 \<and> name \<in> fst ` set (case Some sw of None \<Rightarrow> [] | Some s \<Rightarrow> s)
       then Inr []
       else to_binary ua uatype val)"
  from assms have n: "snd (set_switches sw attrs) = None"
    by (auto simp: Let_def split: option.splits)
  then have s: "set_switches sw attrs = (?attrs', None)"
    by (metis prod.collapse)
  from assms n have "traverse ?f t = Inr b"
    by (simp add: Let_def del: to_binary.simps list_to_binary.simps)
  from traverse_concat [OF this] obtain bs where bs: "b = concat bs"
    "list_all2 (\<lambda>x fb. ?f x = Inr fb) t bs" by blast
  have pt: "\<exists>val. map_of ?attrs' name = Some val \<and>
        (if startswith uatype ''ListOf'' then list_to_binary ua (drop 6 uatype) val = Inr fb
         else if val = PNone \<and> name \<in> fst ` set sw then fb = []
         else to_binary ua uatype val = Inr fb)"
    if "?f (name, uatype) = Inr fb" for name uatype fb
  proof -
    from that have "\<exists>val. getattr ?attrs' name = Inr val \<and>
        (if startswith uatype ''ListOf'' then list_to_binary ua (drop 6 uatype) val
         else if (\<exists>y. Some sw = Some y) \<and> val = PNone
                   \<and> name \<in> fst ` set (case Some sw of None \<Rightarrow> [] | Some s \<Rightarrow> s)
         then Inr []
         else to_binary ua uatype val) = Inr fb"
      unfolding prod.case bind_eq_Inr .
    then obtain val where v: "getattr ?attrs' name = Inr val"
      and r: "(if startswith uatype ''ListOf'' then list_to_binary ua (drop 6 uatype) val
         else if (\<exists>y. Some sw = Some y) \<and> val = PNone
                   \<and> name \<in> fst ` set (case Some sw of None \<Rightarrow> [] | Some s \<Rightarrow> s)
         then Inr []
         else to_binary ua uatype val) = Inr fb"
      by blast
    from v have m: "map_of ?attrs' name = Some val"
      by (simp add: getattr_def split: option.splits)
    have "if startswith uatype ''ListOf'' then list_to_binary ua (drop 6 uatype) val = Inr fb
         else if val = PNone \<and> name \<in> fst ` set sw then fb = []
         else to_binary ua uatype val = Inr fb"
    proof (cases "startswith uatype ''ListOf''")
      case True
      with r show ?thesis by (simp only: if_True)
    next
      case False
      show ?thesis
      proof (cases "val = PNone \<and> name \<in> fst ` set sw")
        case True
        with r False have "Inr [] = Inr fb" by (simp del: to_binary.simps list_to_binary.simps)
        with True False show ?thesis by simp
      next
        case n: False
        with r False have "to_binary ua uatype val = Inr fb"
          by (simp del: to_binary.simps list_to_binary.simps)
        with n False show ?thesis by (simp only: if_False)
      qed
    qed
    with m show ?thesis by blast
  qed
  have c3: "list_all2 (\<lambda>(name, uatype) fb. \<exists>val. map_of ?attrs' name = Some val \<and>
        (if startswith uatype ''ListOf'' then list_to_binary ua (drop 6 uatype) val = Inr fb
         else if val = PNone \<and> name \<in> fst ` set sw then fb = []
         else to_binary ua uatype val = Inr fb)) t bs"
    using bs(2)
  proof (rule list_all2_mono)
    fix x fb
    assume a: "?f x = Inr fb"
    obtain name uatype where x: "x = (name, uatype)" by (cases x)
    from pt [of name uatype fb] a
    show "(case x of (name, uatype) \<Rightarrow> \<lambda>fb. \<exists>val. map_of ?attrs' name = Some val \<and>
        (if startswith uatype ''ListOf'' then list_to_binary ua (drop 6 uatype) val = Inr fb
         else if val = PNone \<and> name \<in> fst ` set sw then fb = []
         else to_binary ua uatype val = Inr fb)) fb"
      unfolding x prod.case .
  qed
  have c2: "\<forall>n. n \<notin> containers (Some sw) \<longrightarrow> map_of ?attrs' n = map_of attrs n"
    using set_switches_frame [of sw attrs] by (simp add: containers_def)
  have c1: "\<forall>container cv i. map_of attrs container = Some cv \<longrightarrow> as_int cv = Some i \<longrightarrow>
        (\<exists>cv' j. map_of ?attrs' container = Some cv' \<and> as_int cv' = Some j \<and>
           (\<forall>idx. bit j idx \<longleftrightarrow>
              bit i idx \<or> (\<exists>name. (name, container, idx) \<in> set sw \<and> present attrs name)))"
  proof (intro allI impI)
    fix container cv i
    assume "map_of attrs container = Some cv" and "as_int cv = Some i"
    then show "\<exists>cv' j. map_of ?attrs' container = Some cv' \<and> as_int cv' = Some j \<and>
           (\<forall>idx. bit j idx \<longleftrightarrow>
              bit i idx \<or> (\<exists>name. (name, container, idx) \<in> set sw \<and> present attrs name))"
      by (rule set_switches_bits [OF s])
  qed
  show ?thesis
    by (rule exI [of _ ?attrs'], rule exI [of _ bs]) (intro conjI s c1 c2 bs(1) c3)
qed

lemma to_binary_NodeId_new: "to_binary ua ''NodeId'' NodeId_new = Inr [0, 0]"
  by (simp add: NodeId_new_def VariantType_named_def builtin_types_def Primitives_def
      pack_int_def le_bytes_numeral)

lemma to_binary_Byte: "0 \<le> k \<Longrightarrow> k < 256 \<Longrightarrow> to_binary ua ''Byte'' (PInt k) = Inr [of_int k]"
  by (simp add: VariantType_named_def builtin_types_def Primitives_def pack_int_FB_small)

lemma stale_object_bytes:
  "0 \<le> k \<Longrightarrow> k < 256 \<Longrightarrow> \<not> bit k 0 \<Longrightarrow> struct_to_binary ua (stale_object k) = Inr [0, 0, of_int k]"
  "struct_to_binary ua (stale_object 1) = Inr [0, 0, 1]"
  using to_binary_NodeId_new [of ua] to_binary_Byte [of _ ua]
  by (simp_all add: stale_object_def getattr_def startswith_def del: to_binary.simps)

text \<open>
  C2, as the spec states it, fails: an object whose optional \<^verbatim>\<open>Body\<close> is absent while bit 0
  of \<^verbatim>\<open>Encoding\<close> is set is encoded as \<^verbatim>\<open>00 00 01\<close>, the same object with the bit clear as
  \<^verbatim>\<open>00 00 00\<close>.
\<close>

theorem struct_to_binary_keeps_stale_bit:
  "\<not> (\<forall>ua c t sw attrs name container idx i.
        (name, container, idx) \<in> set sw \<longrightarrow> map_of attrs name = Some PNone \<longrightarrow>
        map_of attrs container = Some (PInt i) \<longrightarrow>
        struct_to_binary ua (PObject c t (Some sw) attrs) =
        struct_to_binary ua (PObject c t (Some sw) (setattr attrs container (PInt (unset_bit i idx)))))"
proof
  assume a: "\<forall>ua c t sw attrs name container idx i.
        (name, container, idx) \<in> set sw \<longrightarrow> map_of attrs name = Some PNone \<longrightarrow>
        map_of attrs container = Some (PInt i) \<longrightarrow>
        struct_to_binary ua (PObject c t (Some sw) attrs) =
        struct_to_binary ua (PObject c t (Some sw) (setattr attrs container (PInt (unset_bit i idx))))"
  have h: "(''Body'', ''Encoding'', 0) \<in> set [(''Body'', ''Encoding'', 0 :: nat)]"
    "map_of [(''TypeId'', NodeId_new), (''Encoding'', PInt 1), (''Body'', PNone)] ''Body'' = Some PNone"
    "map_of [(''TypeId'', NodeId_new), (''Encoding'', PInt 1), (''Body'', PNone)] ''Encoding'' = Some (PInt 1)"
    by simp_all
  have u: "setattr [(''TypeId'', NodeId_new), (''Encoding'', PInt 1), (''Body'', PNone)] ''Encoding''
             (PInt (unset_bit 1 0))
           = [(''TypeId'', NodeId_new), (''Encoding'', PInt 0), (''Body'', PNone)]"
    by (simp add: unset_bit_def)
  from a [rule_format, OF h, of ua_probe "''ExtensionObject''"
      "[(''TypeId'', ''NodeId''), (''Encoding'', ''Byte''), (''Body'', ''ByteString'')]"]
  have "struct_to_binary ua_probe (stale_object 1) = struct_to_binary ua_probe (stale_object 0)"
    unfolding u stale_object_def .
  then show False
    using stale_object_bytes(1) [of 0 ua_probe] stale_object_bytes(2) [of ua_probe] by simp
qed

lemma to_binary_ByteString:
  "to_binary ua ''ByteString'' (PBytes [7]) = Inr [1, 0, 0, 0, 7]"
  by (simp add: VariantType_named_def builtin_types_def Primitives_def String_pack_def
      pack_int_def le_bytes_numeral)

lemma present_body_bytes:
  "struct_to_binary ua
     (PObject ''ExtensionObject''
        [(''TypeId'', ''NodeId''), (''Encoding'', ''Byte''), (''Body'', ''ByteString'')]
        (Some [(''Body'', ''Encoding'', 0)])
        [(''TypeId'', NodeId_new), (''Encoding'', PInt 0), (''Body'', PBytes [7])])
   = Inr [0, 0, 1, 1, 0, 0, 0, 7]"
  using to_binary_NodeId_new [of ua] to_binary_Byte [of 1 ua] to_binary_ByteString [of ua]
  by (simp add: getattr_def startswith_def del: to_binary.simps)

theorem struct_to_binary_switches_witness:
  "struct_to_binary ua_probe
     (PObject ''ExtensionObject''
        [(''TypeId'', ''NodeId''), (''Encoding'', ''Byte''), (''Body'', ''ByteString'')]
        (Some [(''Body'', ''Encoding'', 0)])
        [(''TypeId'', NodeId_new), (''Encoding'', PInt 0), (''Body'', PBytes [7])])
     = Inr [0, 0, 1, 1, 0, 0, 0, 7] \<and>
   (\<exists>attrs' bs cv' j.
      set_switches [(''Body'', ''Encoding'', 0)]
        [(''TypeId'', NodeId_new), (''Encoding'', PInt 0), (''Body'', PBytes [7])] = (attrs', None) \<and>
      map_of attrs' ''Encoding'' = Some cv' \<and> as_int cv' = Some j \<and> bit j 0 \<and> \<not> bit j 1 \<and>
      concat bs = ([0, 0, 1, 1, 0, 0, 0, 7] :: bytes) \<and> length bs = 3)"
proof -
  let ?t = "[(''TypeId'', ''NodeId''), (''Encoding'', ''Byte''), (''Body'', ''ByteString'')]"
  let ?sw = "[(''Body'', ''Encoding'', 0 :: nat)]"
  let ?attrs = "[(''TypeId'', NodeId_new), (''Encoding'', PInt 0), (''Body'', PBytes [7])]"
  have b: "struct_to_binary ua_probe (PObject ''ExtensionObject'' ?t (Some ?sw) ?attrs)
      = Inr [0, 0, 1, 1, 0, 0, 0, 7]"
    by (rule present_body_bytes)
  from struct_to_binary_switches [OF b] obtain attrs' bs where
    s: "set_switches ?sw ?attrs = (attrs', None)"
    and c: "\<forall>container cv i. map_of ?attrs container = Some cv \<longrightarrow> as_int cv = Some i \<longrightarrow>
        (\<exists>cv' j. map_of attrs' container = Some cv' \<and> as_int cv' = Some j \<and>
           (\<forall>idx. bit j idx \<longleftrightarrow>
              bit i idx \<or> (\<exists>name. (name, container, idx) \<in> set ?sw \<and> present ?attrs name)))"
    and bs: "[0, 0, 1, 1, 0, 0, 0, 7] = concat bs"
    and l: "list_all2 (\<lambda>(name, uatype) fb. \<exists>val. map_of attrs' name = Some val \<and>
        (if startswith uatype ''ListOf'' then list_to_binary ua_probe (drop 6 uatype) val = Inr fb
         else if val = PNone \<and> name \<in> fst ` set ?sw then fb = []
         else to_binary ua_probe uatype val = Inr fb)) ?t bs"
    by blast
  have m: "map_of ?attrs ''Encoding'' = Some (PInt 0)" "as_int (PInt 0) = Some 0" by simp_all
  from c [rule_format, OF m] obtain cv' j where
    j: "map_of attrs' ''Encoding'' = Some cv'" "as_int cv' = Some j"
       "\<forall>idx. bit j idx \<longleftrightarrow> bit (0 :: int) idx \<or>
          (\<exists>name. (name, ''Encoding'', idx) \<in> set ?sw \<and> present ?attrs name)"
    by blast
  from j(3) have "bit j 0" "\<not> bit j 1" by (simp_all add: present_def)
  moreover from l have "length bs = 3" by (auto dest: list_all2_lengthD)
  moreover from bs have "concat bs = ([0, 0, 1, 1, 0, 0, 0, 7] :: bytes)" by (rule sym)
  ultimately show ?thesis using b s j(1,2) by blast
qed

subsection \<open>Variants\<close>



lemma stride_Nil [simp]: "stride [] = 1"
  by (simp add: stride_def)














lemma traverse_pack_each:
  "Primitives (name_of vtype) = Some st \<Longrightarrow>
   traverse (pack_uatype ua vtype) xs = pack_each ua st xs"
  by (induction xs) simp_all





text \<open>
  The values of the fixed-width scalar types round-trip, at any depth of calls but none.
\<close>

lemma Primitive1_roundtrips:
  assumes "Primitives (name_of vtype) = Some (Primitive1 c)" and "is_value_of ua c x"
  shows "roundtrips ua (Suc d) vtype x"
  using scalar_roundtrip [OF assms(2)] assms(1) by (simp add: roundtrips_def)


















subsection \<open>What the encoders leave in their argument\<close>

























text \<open>
  The assignments reach the values nested in the argument: a structure whose field is
  a variant holding a list leaves \<^verbatim>\<open>struct_to_binary\<close> with the flag of that variant set.
\<close>

lemma nested_flag_set:
  "struct_to_binary_run ua_probe 6
     (PObject ''Holder'' [(''V'', ''Variant'')] None
        [(''V'', PVariant (PList [PInt 1]) Int32 PNone False)])
   = (PObject ''Holder'' [(''V'', ''Variant'')] None
        [(''V'', PVariant (PList [PInt 1]) Int32 PNone True)],
      Inr [0x86, 1, 0, 0, 0, 1, 0, 0, 0])"
  by code_simp




end
